theory Spec2Isabelle
  imports Main Complex_Main "HOL-Library.Word" "HOL-Library.Sublist" "HOL-Library.Multiset"
begin

unbundle bit_operations_syntax

section \<open>Time\<close>

text \<open>
  An instant of Go's \<open>time.Time\<close> is a number of nanoseconds on the clock's axis, a
  \<open>time.Duration\<close> a signed 64-bit number of nanoseconds. \<open>time.Since(t)\<close> is
  \<open>time.Now().Sub(t)\<close>, and \<open>Sub\<close> saturates at the largest and smallest duration.
  The clock is an input of the model: every read of \<open>time.Now()\<close> is a parameter.
\<close>

type_synonym Time = int
type_synonym Duration = int

definition maxDuration :: Duration where
  "maxDuration = 2 ^ 63 - 1"

definition minDuration :: Duration where
  "minDuration = - (2 ^ 63)"

definition Sub :: "Time \<Rightarrow> Time \<Rightarrow> Duration" where
  "Sub t u = (let d = t - u in
     if d > maxDuration then maxDuration
     else if d < minDuration then minDuration
     else d)"

definition Since :: "Time \<Rightarrow> Time \<Rightarrow> Duration" where
  "Since now t = Sub now t"

section \<open>Circuit breaker (internal/services/ping)\<close>

datatype CircuitBreakerState = StateClosed | StateHalfOpen | StateOpen

text \<open>
  The struct \<open>CircuitBreaker\<close>. The counters are Go \<open>int\<close>s (64 bits, wrapping).
  The callback \<open>onStateChange\<close> is started in a goroutine of its own and only feeds
  logging and gauges: the field says whether one is installed, and \<open>notified\<close> lists the
  transitions that were handed to it.
\<close>

record CircuitBreaker =
  name :: string
  maxFailures :: "64 word"
  resetTimeout :: Duration
  state :: CircuitBreakerState
  failures :: "64 word"
  lastFailTime :: Time
  onStateChange :: bool
  notified :: "(string \<times> CircuitBreakerState \<times> CircuitBreakerState) list"

text \<open>
  The zero value of \<open>time.Time\<close> (year 1); as nanoseconds before the Unix epoch.
\<close>

definition zeroTime :: Time where
  "zeroTime = - 62135596800 * 1000000000"

definition NewCircuitBreaker :: "string \<Rightarrow> 64 word \<Rightarrow> Duration \<Rightarrow> CircuitBreaker" where
  "NewCircuitBreaker nm maxF timeout =
     \<lparr> name = nm, maxFailures = maxF, resetTimeout = timeout, state = StateClosed,
       failures = 0, lastFailTime = zeroTime, onStateChange = False, notified = [] \<rparr>"

definition SetOnStateChange :: "CircuitBreaker \<Rightarrow> CircuitBreaker" where
  "SetOnStateChange cb = cb\<lparr>onStateChange := True\<rparr>"

definition setState :: "CircuitBreaker \<Rightarrow> CircuitBreakerState \<Rightarrow> CircuitBreaker" where
  "setState cb newState =
     (let oldState = state cb;
          cb1 = cb\<lparr>state := newState\<rparr>
      in if onStateChange cb1 \<and> oldState \<noteq> newState
         then cb1\<lparr>notified := notified cb1 @ [(name cb1, oldState, newState)]\<rparr>
         else cb1)"

definition getStateString :: "CircuitBreaker \<Rightarrow> string" where
  "getStateString cb = (case state cb of
       StateClosed \<Rightarrow> ''closed''
     | StateHalfOpen \<Rightarrow> ''half-open''
     | StateOpen \<Rightarrow> ''open'')"

text \<open>
  \<open>canExecute\<close> reads the clock twice in the \<open>StateOpen\<close> case: once under the read
  lock (\<open>now1\<close>) and once more under the write lock (\<open>now2\<close>).
\<close>

definition canExecute :: "CircuitBreaker \<Rightarrow> Time \<Rightarrow> Time \<Rightarrow> bool \<times> CircuitBreaker" where
  "canExecute cb now1 now2 = (case state cb of
       StateClosed \<Rightarrow> (True, cb)
     | StateOpen \<Rightarrow>
         if Since now1 (lastFailTime cb) > resetTimeout cb then
           let cb1 = (if state cb = StateOpen \<and> Since now2 (lastFailTime cb) > resetTimeout cb
                      then setState cb StateHalfOpen else cb)
           in (state cb1 = StateHalfOpen, cb1)
         else (False, cb)
     | StateHalfOpen \<Rightarrow> (True, cb))"

definition recordFailure :: "CircuitBreaker \<Rightarrow> Time \<Rightarrow> CircuitBreaker" where
  "recordFailure cb now =
     (let cb1 = cb\<lparr>failures := failures cb + 1, lastFailTime := now\<rparr>
      in case state cb1 of
           StateClosed \<Rightarrow> if maxFailures cb1 \<le>s failures cb1 then setState cb1 StateOpen else cb1
         | StateHalfOpen \<Rightarrow> setState cb1 StateOpen
         | StateOpen \<Rightarrow> cb1)"

definition recordSuccess :: "CircuitBreaker \<Rightarrow> CircuitBreaker" where
  "recordSuccess cb = (case state cb of
       StateHalfOpen \<Rightarrow> (setState cb StateClosed)\<lparr>failures := 0\<rparr>
     | StateClosed \<Rightarrow> if 0 <s failures cb then cb\<lparr>failures := 0\<rparr> else cb
     | StateOpen \<Rightarrow> cb)"

text \<open>
  The error returned by \<open>Call\<close>: the breaker's own \<open>CircuitBreakerError\<close> (name and
  state string), or whatever error the probe function returned.
\<close>

datatype 'e CallError = CircuitBreakerError string string | ProbeError 'e

text \<open>
  The probe function \<open>fn\<close> acts on the world outside the breaker: it takes the world and
  returns its error (\<open>None\<close> for \<open>nil\<close>) and the world it leaves. A call that does not
  invoke \<open>fn\<close> leaves the world as it was. \<open>now3\<close> is the clock read by \<open>recordFailure\<close>.
\<close>

definition Call ::
  "CircuitBreaker \<Rightarrow> Time \<Rightarrow> Time \<Rightarrow> Time \<Rightarrow> ('w \<Rightarrow> 'e option \<times> 'w) \<Rightarrow> 'w
     \<Rightarrow> 'e CallError option \<times> CircuitBreaker \<times> 'w" where
  "Call cb now1 now2 now3 fn w =
     (case canExecute cb now1 now2 of
        (False, cb1) \<Rightarrow> (Some (CircuitBreakerError (name cb1) (getStateString cb1)), cb1, w)
      | (True, cb1) \<Rightarrow>
          (case fn w of
             (Some err, w1) \<Rightarrow> (Some (ProbeError err), recordFailure cb1 now3, w1)
           | (None, w1) \<Rightarrow> (None, recordSuccess cb1, w1)))"


text \<open>
  A sequence of calls on one breaker, each with its three clock reads and its probe
  function: the calls of one (site, line) pair taken one after the other, each finished
  before the next begins. Calls that overlap in time are not modelled.
\<close>

type_synonym ('w, 'e) call = "Time \<times> Time \<times> Time \<times> ('w \<Rightarrow> 'e option \<times> 'w)"

fun Calls :: "CircuitBreaker \<Rightarrow> ('w, 'e) call list \<Rightarrow> 'w
    \<Rightarrow> 'e CallError option list \<times> CircuitBreaker \<times> 'w" where
  "Calls cb [] w = ([], cb, w)"
| "Calls cb ((now1, now2, now3, fn) # cs) w =
     (case Call cb now1 now2 now3 fn w of (r, cb1, w1) \<Rightarrow>
        (case Calls cb1 cs w1 of (rs, cb2, w2) \<Rightarrow> (r # rs, cb2, w2)))"

definition probe_fails :: "('w, 'e) call \<Rightarrow> bool" where
  "probe_fails c = (case c of (now1, now2, now3, fn) \<Rightarrow> \<forall>w. fst (fn w) \<noteq> None)"

definition blocked_at :: "CircuitBreaker \<Rightarrow> ('w, 'e) call \<Rightarrow> bool" where
  "blocked_at cb c = (case c of (now1, now2, now3, fn) \<Rightarrow>
     \<not> Since now1 (lastFailTime cb) > resetTimeout cb)"

text \<open>
  What holds of the counter between calls: the breaker is not Half-Open, and while it is
  Closed the counter is not negative and, unless it is 0, below the threshold.
\<close>

definition counter_ok :: "CircuitBreaker \<Rightarrow> bool" where
  "counter_ok cb =
     (state cb \<noteq> StateHalfOpen \<and>
      (state cb \<noteq> StateClosed \<or>
         (0 \<le>s failures cb \<and> (failures cb = 0 \<or> failures cb <s maxFailures cb))))"

section \<open>Floating point\<close>

text \<open>
  A \<open>float64\<close> is a finite value, an infinity or NaN. Finite values are taken as real
  numbers: rounding to 53 bits, overflow to infinity and the sign of zero are not
  modelled. What is modelled is where a computation leaves the finite values: a division
  by zero gives an infinity or NaN and does not fault, and NaN compares false.
\<close>

datatype float64 = Finite real | PosInf | NegInf | NaN

fun f64_negative :: "float64 \<Rightarrow> bool" where
  "f64_negative (Finite a) = (a < 0)"
| "f64_negative NegInf = True"
| "f64_negative _ = False"

fun f64_add :: "float64 \<Rightarrow> float64 \<Rightarrow> float64" where
  "f64_add NaN _ = NaN"
| "f64_add _ NaN = NaN"
| "f64_add (Finite a) (Finite b) = Finite (a + b)"
| "f64_add PosInf NegInf = NaN"
| "f64_add NegInf PosInf = NaN"
| "f64_add PosInf _ = PosInf"
| "f64_add _ PosInf = PosInf"
| "f64_add NegInf _ = NegInf"
| "f64_add _ NegInf = NegInf"

fun f64_mul :: "float64 \<Rightarrow> float64 \<Rightarrow> float64" where
  "f64_mul NaN _ = NaN"
| "f64_mul _ NaN = NaN"
| "f64_mul (Finite a) (Finite b) = Finite (a * b)"
| "f64_mul x y =
     (if x = Finite 0 \<or> y = Finite 0 then NaN
      else if f64_negative x = f64_negative y then PosInf else NegInf)"

fun f64_div :: "float64 \<Rightarrow> float64 \<Rightarrow> float64" where
  "f64_div NaN _ = NaN"
| "f64_div _ NaN = NaN"
| "f64_div (Finite a) (Finite b) =
     (if b = 0 then (if a = 0 then NaN else if 0 < a then PosInf else NegInf)
      else Finite (a / b))"
| "f64_div (Finite a) _ = Finite 0"
| "f64_div x (Finite b) = (if f64_negative x = (b < 0) then PosInf else NegInf)"
| "f64_div _ _ = NaN"

fun f64_less :: "float64 \<Rightarrow> float64 \<Rightarrow> bool" where
  "f64_less NaN _ = False"
| "f64_less _ NaN = False"
| "f64_less (Finite a) (Finite b) = (a < b)"
| "f64_less NegInf NegInf = False"
| "f64_less NegInf _ = True"
| "f64_less _ NegInf = False"
| "f64_less PosInf _ = False"
| "f64_less _ PosInf = True"

definition f64_le :: "float64 \<Rightarrow> float64 \<Rightarrow> bool" where
  "f64_le x y = (x \<noteq> NaN \<and> y \<noteq> NaN \<and> \<not> f64_less y x)"

text \<open>\<open>float64(n)\<close> of a Go \<open>int\<close>.\<close>

definition f64_of_int :: "64 word \<Rightarrow> float64" where
  "f64_of_int n = Finite (real_of_int (sint n))"

text \<open>\<open>math.Round\<close>: to the nearest integer, halves away from zero.\<close>

fun math_Round :: "float64 \<Rightarrow> float64" where
  "math_Round (Finite a) =
     Finite (if a < 0 then - real_of_int \<lfloor>- a + 1 / 2\<rfloor> else real_of_int \<lfloor>a + 1 / 2\<rfloor>)"
| "math_Round x = x"

text \<open>\<open>math.MaxFloat64\<close>.\<close>

definition MaxFloat64 :: float64 where
  "MaxFloat64 = Finite ((2 ^ 53 - 1) * 2 ^ 971)"


section \<open>Data model (internal/models)\<close>

text \<open>
  Go's \<open>int\<close> is 64 bits wide and wraps (\<open>64 word\<close>, read with \<open>sint\<close>); a
  \<open>*float64\<close> is an optional \<open>float64\<close>. Of \<open>Site\<close> the SLA configuration is left
  out: no function modelled here reads it.
\<close>

record Site =
  ID :: string
  Name :: string
  Location :: string
  PrimaryIP :: string
  SecondaryIP :: string
  PrimaryProvider :: string
  SecondaryProvider :: string
  Interval :: "64 word"
  Enabled :: bool

definition IsDualLine :: "Site \<Rightarrow> bool" where
  "IsDualLine s = (SecondaryIP s \<noteq> [])"

record SiteStatus =
  SiteID :: string
  PrimaryOnline :: bool
  SecondaryOnline :: bool
  BothOnline :: bool
  PrimaryLatency :: "float64 option"
  SecondaryLatency :: "float64 option"
  LastCheck :: Time
  PrimaryError :: string
  SecondaryError :: string

record PingLog =
  ID :: "64 word"
  Timestamp :: Time
  SiteID :: string
  SiteName :: string
  Target :: string
  IP :: string
  Success :: bool
  Latency :: "float64 option"
  Error :: string
  PacketsSent :: "64 word"
  PacketsRecv :: "64 word"
  PacketsDuplicates :: "64 word"
  PacketLoss :: "float64 option"
  MinLatency :: "float64 option"
  MaxLatency :: "float64 option"
  Jitter :: "float64 option"

record PingResult =
  SiteID :: string
  IP :: string
  LineType :: string
  Success :: bool
  Latency :: "float64 option"
  Error :: string
  Timestamp :: Time
  PacketsSent :: "64 word"
  PacketsRecv :: "64 word"
  PacketsDuplicates :: "64 word"
  PacketLoss :: "float64 option"
  MinLatency :: "float64 option"
  MaxLatency :: "float64 option"
  Jitter :: "float64 option"

record RecentEvent =
  Timestamp :: Time
  Status :: string
  Message :: string
  SiteID :: string
  Target :: string
  IsOutage :: bool

text \<open>The run-time panics that the modelled functions can raise.\<close>

datatype panic = NilPointerDereference | SliceBoundsOutOfRange | InvalidLabelValue
  | CounterDecrease

section \<open>In-memory log store (internal/storage/memory.go)\<close>

record MemoryStorage =
  logs :: "PingLog list"
  maxLogs :: int
  logCounter :: "64 word"

definition NewMemoryStorage :: "int \<Rightarrow> MemoryStorage" where
  "NewMemoryStorage maxLogs0 =
     (let maxLogs1 = (if maxLogs0 \<le> 0 then 1000 else maxLogs0)
      in \<lparr> logs = [], maxLogs = maxLogs1, logCounter = 0 \<rparr>)"

text \<open>
  \<open>AddPingLog\<close> always returns a \<open>nil\<close> error. The slice expression \<open>m.logs[1:]\<close>
  panics on an empty slice, which takes a store whose \<open>maxLogs\<close> is not positive.
\<close>

definition AddPingLog :: "MemoryStorage \<Rightarrow> PingLog \<Rightarrow> panic + MemoryStorage" where
  "AddPingLog m log0 =
     (let m1 = m\<lparr>logCounter := logCounter m + 1\<rparr>;
          log1 = log0\<lparr>PingLog.ID := logCounter m1\<rparr>
      in if int (length (logs m1)) \<ge> maxLogs m1
         then (case logs m1 of
                 [] \<Rightarrow> Inl SliceBoundsOutOfRange
               | oldest # rest \<Rightarrow> Inr (m1\<lparr>logs := rest @ [log1]\<rparr>))
         else Inr (m1\<lparr>logs := logs m1 @ [log1]\<rparr>))"

text \<open>A sequence of appends, one after the other; a panic ends it.\<close>

fun AddPingLogs :: "MemoryStorage \<Rightarrow> PingLog list \<Rightarrow> panic + MemoryStorage" where
  "AddPingLogs m [] = Inr m"
| "AddPingLogs m (log0 # rest) =
     (case AddPingLog m log0 of Inl p \<Rightarrow> Inl p | Inr m1 \<Rightarrow> AddPingLogs m1 rest)"

text \<open>
  The entries of a sequence of appends as the store keeps them, each with the identifier
  it was given, the counter standing at \<open>c\<close> before the first.
\<close>

fun stamped :: "64 word \<Rightarrow> PingLog list \<Rightarrow> PingLog list" where
  "stamped c [] = []"
| "stamped c (log0 # rest) = log0\<lparr>PingLog.ID := c + 1\<rparr> # stamped (c + 1) rest"

text \<open>
  The loop of \<open>GetFilteredLogs\<close>, from the last index down to 0: \<open>pending\<close> holds the
  entries not yet visited, newest first. The site filter is absent when \<open>siteID\<close> is
  empty, the success filter when \<open>success\<close> is \<open>nil\<close>.
\<close>

fun filter_loop :: "string \<Rightarrow> bool option \<Rightarrow> int \<Rightarrow> PingLog list \<Rightarrow> PingLog list
    \<Rightarrow> PingLog list" where
  "filter_loop siteID success limit [] filtered = filtered"
| "filter_loop siteID success limit (log0 # pending) filtered =
     (if siteID \<noteq> [] \<and> PingLog.SiteID log0 \<noteq> siteID
      then filter_loop siteID success limit pending filtered
      else if (case success of None \<Rightarrow> False | Some b \<Rightarrow> PingLog.Success log0 \<noteq> b)
      then filter_loop siteID success limit pending filtered
      else let filtered1 = filtered @ [log0]
           in if limit > 0 \<and> int (length filtered1) \<ge> limit then filtered1
              else filter_loop siteID success limit pending filtered1)"

definition GetFilteredLogs :: "MemoryStorage \<Rightarrow> string \<Rightarrow> bool option \<Rightarrow> int \<Rightarrow> PingLog list" where
  "GetFilteredLogs m siteID success limit = filter_loop siteID success limit (rev (logs m)) []"

definition GetAllLogs :: "MemoryStorage \<Rightarrow> PingLog list" where
  "GetAllLogs m = logs m"

text \<open>What the two filters of a query ask of an entry.\<close>

definition matches :: "string \<Rightarrow> bool option \<Rightarrow> PingLog \<Rightarrow> bool" where
  "matches siteID success log0 =
     ((siteID = [] \<or> PingLog.SiteID log0 = siteID) \<and>
      (case success of None \<Rightarrow> True | Some b \<Rightarrow> PingLog.Success log0 = b))"



section \<open>SQLite log store (internal/storage/sqlite.go)\<close>









section \<open>Result pipeline (internal/services/ping/ping.go)\<close>

text \<open>
  \<open>AppState\<close>, with the storage backend as a type parameter. The status map holds one
  \<open>SiteStatus\<close> object of its own per key (\<open>InitializeSiteStatus\<close> allocates each), so
  writing through the pointer is an update of the map at that key. The Prometheus
  counters and gauges are a sink outside the model.
\<close>

record 's AppState =
  Sites :: "Site list"
  SiteStatus :: "string \<rightharpoonup> SiteStatus"
  Storage :: 's
  StartTime :: Time
  TotalChecks :: "64 word"

text \<open>\<open>InitializeSiteStatus\<close>; \<open>clock i\<close> is the clock read for the \<open>i\<close>-th site.\<close>

fun init_loop :: "(nat \<Rightarrow> Time) \<Rightarrow> nat \<Rightarrow> Site list \<Rightarrow> (string \<rightharpoonup> SiteStatus)
    \<Rightarrow> (string \<rightharpoonup> SiteStatus)" where
  "init_loop clock i [] m = m"
| "init_loop clock i (site # rest) m =
     init_loop clock (Suc i) rest
       (m(Site.ID site \<mapsto>
          \<lparr> SiteStatus.SiteID = Site.ID site, PrimaryOnline = False, SecondaryOnline = False,
            BothOnline = False, PrimaryLatency = None, SecondaryLatency = None,
            LastCheck = clock i, PrimaryError = [], SecondaryError = [] \<rparr>))"

definition InitializeSiteStatus :: "'s AppState \<Rightarrow> (nat \<Rightarrow> Time) \<Rightarrow> 's AppState" where
  "InitializeSiteStatus app clock =
     app\<lparr>SiteStatus := init_loop clock 0 (Sites app) (SiteStatus app)\<rparr>"

definition UpdateSiteStatus :: "'s AppState \<Rightarrow> PingResult \<Rightarrow> 's AppState" where
  "UpdateSiteStatus app result =
     (case SiteStatus app (PingResult.SiteID result) of
        None \<Rightarrow> app
      | Some status \<Rightarrow>
          let status1 =
                (if LineType result = ''primary'' then
                   (if PingResult.Success result
                    then status\<lparr>PrimaryOnline := PingResult.Success result,
                                PrimaryLatency := PingResult.Latency result,
                                PrimaryError := []\<rparr>
                    else status\<lparr>PrimaryOnline := PingResult.Success result,
                                PrimaryLatency := None,
                                PrimaryError := PingResult.Error result\<rparr>)
                 else if LineType result = ''secondary'' then
                   (if PingResult.Success result
                    then status\<lparr>SecondaryOnline := PingResult.Success result,
                                SecondaryLatency := PingResult.Latency result,
                                SecondaryError := []\<rparr>
                    else status\<lparr>SecondaryOnline := PingResult.Success result,
                                SecondaryLatency := None,
                                SecondaryError := PingResult.Error result\<rparr>)
                 else status);
              status2 =
                (case find (\<lambda>s. Site.ID s = PingResult.SiteID result) (Sites app) of
                   Some site \<Rightarrow>
                     if IsDualLine site
                     then status1\<lparr>BothOnline := PrimaryOnline status1 \<and> SecondaryOnline status1\<rparr>
                     else status1\<lparr>BothOnline := PrimaryOnline status1\<rparr>
                 | None \<Rightarrow> status1);
              status3 = status2\<lparr>LastCheck := PingResult.Timestamp result\<rparr>
          in app\<lparr>SiteStatus := (SiteStatus app)(PingResult.SiteID result \<mapsto> status3)\<rparr>)"

text \<open>
  The backend's \<open>AddPingLog\<close> is a parameter: it returns its error (\<open>None\<close> for
  \<open>nil\<close>) and the storage it leaves. Either way \<open>AddPingLogToStorage\<close> only writes a
  line to the logger.
\<close>

definition AddPingLogToStorage ::
  "('s \<Rightarrow> PingLog \<Rightarrow> 'x option \<times> 's) \<Rightarrow> 's AppState \<Rightarrow> PingResult \<Rightarrow> string \<Rightarrow> 's AppState" where
  "AddPingLogToStorage addPingLog app result siteName =
     (let logEntry =
            \<lparr> PingLog.ID = 0,
              PingLog.Timestamp = PingResult.Timestamp result,
              PingLog.SiteID = PingResult.SiteID result,
              PingLog.SiteName = siteName,
              PingLog.Target = LineType result,
              PingLog.IP = PingResult.IP result,
              PingLog.Success = PingResult.Success result,
              PingLog.Latency = PingResult.Latency result,
              PingLog.Error = PingResult.Error result,
              PingLog.PacketsSent = PingResult.PacketsSent result,
              PingLog.PacketsRecv = PingResult.PacketsRecv result,
              PingLog.PacketsDuplicates = PingResult.PacketsDuplicates result,
              PingLog.PacketLoss = PingResult.PacketLoss result,
              PingLog.MinLatency = PingResult.MinLatency result,
              PingLog.MaxLatency = PingResult.MaxLatency result,
              PingLog.Jitter = PingResult.Jitter result \<rparr>
      in case addPingLog (Storage app) logEntry of
           (Some err, storage1) \<Rightarrow> app\<lparr>Storage := storage1\<rparr>
         | (None, storage1) \<Rightarrow> app\<lparr>Storage := storage1\<rparr>)"

text \<open>
  The metrics block of \<open>HandlePingResult\<close>, between the counter and the append, by the
  panic it ends in, if any. The values it hands to the Prometheus library are not kept;
  what is kept is where the library or the block itself panics, in the order of the
  code: \<open>WithLabelValues\<close> panics on a label value that the library does not accept (one
  that is not valid UTF-8; the library's test is the parameter \<open>validLabel\<close>), a
  counter's \<open>Add\<close> panics on a negative value, and \<open>*result.Latency\<close> of a successful
  result panics on a nil pointer. Gauges and histograms take every value.
\<close>

definition metrics_panic :: "(string \<Rightarrow> bool) \<Rightarrow> PingResult \<Rightarrow> panic option" where
  "metrics_panic validLabel result =
     (let successLabel = (if PingResult.Success result then ''true'' else ''false'')
      in if \<not> (validLabel (PingResult.SiteID result) \<and> validLabel (LineType result)
                 \<and> validLabel successLabel)
         then Some InvalidLabelValue
         else if PingResult.PacketsSent result <s 0 then Some CounterDecrease
         else if PingResult.PacketsRecv result <s 0 then Some CounterDecrease
         else if PingResult.PacketsDuplicates result <s 0 then Some CounterDecrease
         else if PingResult.Success result \<and> PingResult.Latency result = None
         then Some NilPointerDereference
         else None)"

text \<open>
  \<open>HandlePingResult\<close>: the counter, the metrics block, the site's name, the append, the
  status update. A panic of the metrics block ends it before the append.
\<close>

definition HandlePingResult ::
  "(string \<Rightarrow> bool) \<Rightarrow> ('s \<Rightarrow> PingLog \<Rightarrow> 'x option \<times> 's) \<Rightarrow> 's AppState \<Rightarrow> PingResult
     \<Rightarrow> panic + 's AppState" where
  "HandlePingResult validLabel addPingLog app result =
     (let app1 = app\<lparr>TotalChecks := TotalChecks app + 1\<rparr>
      in case metrics_panic validLabel result of
           Some p \<Rightarrow> Inl p
         | None \<Rightarrow>
           let siteName =
                 (case find (\<lambda>site. Site.ID site = PingResult.SiteID result) (Sites app1) of
                    Some site \<Rightarrow> Name site
                  | None \<Rightarrow> []);
               app2 = AddPingLogToStorage addPingLog app1 result siteName
           in Inr (UpdateSiteStatus app2 result))"

text \<open>The invariant of the combined flag, for the sites of the site list.\<close>

definition combined_ok :: "Site \<Rightarrow> SiteStatus \<Rightarrow> bool" where
  "combined_ok site status =
     (if IsDualLine site
      then BothOnline status = (PrimaryOnline status \<and> SecondaryOnline status)
      else BothOnline status = PrimaryOnline status)"

definition status_ok :: "'s AppState \<Rightarrow> bool" where
  "status_ok app =
     (\<forall>site \<in> set (Sites app).
        case SiteStatus app (Site.ID site) of None \<Rightarrow> True | Some status \<Rightarrow> combined_ok site status)"

text \<open>A sequence of results through \<open>UpdateSiteStatus\<close>, in the order of the queue.\<close>

fun UpdateAll :: "'s AppState \<Rightarrow> PingResult list \<Rightarrow> 's AppState" where
  "UpdateAll app [] = app"
| "UpdateAll app (result # rest) = UpdateAll (UpdateSiteStatus app result) rest"


section \<open>Statistics engine (package stats)\<close>

definition HoursPerDay :: int where "HoursPerDay = 24"
definition DaysPerWeek :: int where "DaysPerWeek = 7"
definition LatencyPrecision :: int where "LatencyPrecision = 2"
definition UptimePrecision :: int where "UptimePrecision = 2"
definition LatencyBucket1 :: float64 where "LatencyBucket1 = Finite 10"
definition LatencyBucket2 :: float64 where "LatencyBucket2 = Finite 50"
definition LatencyBucket3 :: float64 where "LatencyBucket3 = Finite 100"
definition LatencyBucket4 :: float64 where "LatencyBucket4 = Finite 200"
definition LatencyBucket5 :: float64 where "LatencyBucket5 = Finite 500"

text \<open>One hour of \<open>time.Duration\<close>, in nanoseconds.\<close>

definition Hour :: Duration where
  "Hour = 3600 * 1000000000"

text \<open>\<open>math.Pow(10, float64(places))\<close> for an integer \<open>places\<close>.\<close>

definition Pow10 :: "int \<Rightarrow> float64" where
  "Pow10 places = Finite (if 0 \<le> places then 10 ^ nat places else 1 / 10 ^ nat (- places))"

definition roundToDecimalPlaces :: "float64 \<Rightarrow> int \<Rightarrow> float64" where
  "roundToDecimalPlaces v places =
     (let multiplier = Pow10 places
      in f64_div (math_Round (f64_mul v multiplier)) multiplier)"

text \<open>
  The error of \<open>validateLogData\<close>, by its kind and the values its text is made of. A
  successful entry without latency only has a warning logged.
\<close>

datatype ValidationError = EmptySiteID | NegativeLatency float64 string

definition validateLogData :: "PingLog \<Rightarrow> ValidationError option" where
  "validateLogData pingLog =
     (if PingLog.SiteID pingLog = [] then Some EmptySiteID
      else case PingLog.Latency pingLog of
             Some l \<Rightarrow> if f64_less l (Finite 0)
                       then Some (NegativeLatency l (PingLog.SiteID pingLog)) else None
           | None \<Rightarrow> None)"

record TimeframeStats =
  TotalChecks :: "64 word"
  SuccessChecks :: "64 word"
  PrimaryTotal :: "64 word"
  PrimarySuccess :: "64 word"
  SecondaryTotal :: "64 word"
  SecondarySuccess :: "64 word"
  Latencies :: "float64 list"
  MinLatency :: float64
  MaxLatency :: float64
  SumLatency :: float64
  JitterValues :: "float64 list"
  PrimaryMinLatencies :: "float64 list"
  PrimaryMaxLatencies :: "float64 list"
  PrimaryJitterValues :: "float64 list"
  SecondaryMinLatencies :: "float64 list"
  SecondaryMaxLatencies :: "float64 list"
  SecondaryJitterValues :: "float64 list"
  TotalPacketsSent :: "64 word"
  TotalPacketsReceived :: "64 word"
  TotalPacketsDuplicates :: "64 word"
  PacketLossValues :: "float64 list"
  PrimaryPacketsSent :: "64 word"
  PrimaryPacketsReceived :: "64 word"
  PrimaryPacketsDuplicates :: "64 word"
  PrimaryPacketLossValues :: "float64 list"
  SecondaryPacketsSent :: "64 word"
  SecondaryPacketsReceived :: "64 word"
  SecondaryPacketsDuplicates :: "64 word"
  SecondaryPacketLossValues :: "float64 list"

definition NewTimeframeStats :: TimeframeStats where
  "NewTimeframeStats =
     \<lparr> TimeframeStats.TotalChecks = 0, SuccessChecks = 0, PrimaryTotal = 0, PrimarySuccess = 0,
       SecondaryTotal = 0, SecondarySuccess = 0, Latencies = [],
       TimeframeStats.MinLatency = MaxFloat64, TimeframeStats.MaxLatency = Finite 0,
       SumLatency = Finite 0, JitterValues = [],
       PrimaryMinLatencies = [], PrimaryMaxLatencies = [], PrimaryJitterValues = [],
       SecondaryMinLatencies = [], SecondaryMaxLatencies = [], SecondaryJitterValues = [],
       TotalPacketsSent = 0, TotalPacketsReceived = 0, TotalPacketsDuplicates = 0,
       PacketLossValues = [],
       PrimaryPacketsSent = 0, PrimaryPacketsReceived = 0, PrimaryPacketsDuplicates = 0,
       PrimaryPacketLossValues = [],
       SecondaryPacketsSent = 0, SecondaryPacketsReceived = 0, SecondaryPacketsDuplicates = 0,
       SecondaryPacketLossValues = [] \<rparr>"

text \<open>\<open>append\<close> of an optional value: nothing is appended for \<open>nil\<close>.\<close>

definition append_opt :: "'a list \<Rightarrow> 'a option \<Rightarrow> 'a list" where
  "append_opt xs v = (case v of None \<Rightarrow> xs | Some x \<Rightarrow> xs @ [x])"

definition AddLog :: "TimeframeStats \<Rightarrow> PingLog \<Rightarrow> TimeframeStats" where
  "AddLog ts log0 =
     (let ts1 = ts\<lparr>TimeframeStats.TotalChecks := TimeframeStats.TotalChecks ts + 1,
                   TotalPacketsSent := TotalPacketsSent ts + PingLog.PacketsSent log0,
                   TotalPacketsReceived := TotalPacketsReceived ts + PingLog.PacketsRecv log0,
                   TotalPacketsDuplicates :=
                     TotalPacketsDuplicates ts + PingLog.PacketsDuplicates log0,
                   PacketLossValues := append_opt (PacketLossValues ts) (PingLog.PacketLoss log0)\<rparr>;
          ts2 = (if PingLog.Success log0 then
                   let a = ts1\<lparr>SuccessChecks := SuccessChecks ts1 + 1\<rparr>;
                       b = (case PingLog.Latency log0 of
                              None \<Rightarrow> a
                            | Some latency \<Rightarrow>
                                let b1 = a\<lparr>Latencies := Latencies a @ [latency],
                                           SumLatency := f64_add (SumLatency a) latency\<rparr>;
                                    b2 = (if f64_less latency (TimeframeStats.MinLatency b1)
                                          then b1\<lparr>TimeframeStats.MinLatency := latency\<rparr> else b1)
                                in if f64_less (TimeframeStats.MaxLatency b2) latency
                                   then b2\<lparr>TimeframeStats.MaxLatency := latency\<rparr> else b2)
                   in b\<lparr>JitterValues := append_opt (JitterValues b) (PingLog.Jitter log0)\<rparr>
                 else ts1)
      in if PingLog.Target log0 = ''primary'' then
           let p = ts2\<lparr>PrimaryTotal := PrimaryTotal ts2 + 1,
                       PrimaryPacketsSent := PrimaryPacketsSent ts2 + PingLog.PacketsSent log0,
                       PrimaryPacketsReceived :=
                         PrimaryPacketsReceived ts2 + PingLog.PacketsRecv log0,
                       PrimaryPacketsDuplicates :=
                         PrimaryPacketsDuplicates ts2 + PingLog.PacketsDuplicates log0,
                       PrimaryPacketLossValues :=
                         append_opt (PrimaryPacketLossValues ts2) (PingLog.PacketLoss log0)\<rparr>
           in if PingLog.Success log0
              then p\<lparr>PrimarySuccess := PrimarySuccess p + 1,
                     PrimaryMinLatencies :=
                       append_opt (PrimaryMinLatencies p) (PingLog.MinLatency log0),
                     PrimaryMaxLatencies :=
                       append_opt (PrimaryMaxLatencies p) (PingLog.MaxLatency log0),
                     PrimaryJitterValues :=
                       append_opt (PrimaryJitterValues p) (PingLog.Jitter log0)\<rparr>
              else p
         else if PingLog.Target log0 = ''secondary'' then
           let q = ts2\<lparr>SecondaryTotal := SecondaryTotal ts2 + 1,
                       SecondaryPacketsSent := SecondaryPacketsSent ts2 + PingLog.PacketsSent log0,
                       SecondaryPacketsReceived :=
                         SecondaryPacketsReceived ts2 + PingLog.PacketsRecv log0,
                       SecondaryPacketsDuplicates :=
                         SecondaryPacketsDuplicates ts2 + PingLog.PacketsDuplicates log0,
                       SecondaryPacketLossValues :=
                         append_opt (SecondaryPacketLossValues ts2) (PingLog.PacketLoss log0)\<rparr>
           in if PingLog.Success log0
              then q\<lparr>SecondarySuccess := SecondarySuccess q + 1,
                     SecondaryMinLatencies :=
                       append_opt (SecondaryMinLatencies q) (PingLog.MinLatency log0),
                     SecondaryMaxLatencies :=
                       append_opt (SecondaryMaxLatencies q) (PingLog.MaxLatency log0),
                     SecondaryJitterValues :=
                       append_opt (SecondaryJitterValues q) (PingLog.Jitter log0)\<rparr>
              else q
         else ts2)"

text \<open>\<open>float64(a) / float64(b) * 100\<close>, rounded: the shape of every uptime percentage.\<close>

definition percentage :: "64 word \<Rightarrow> 64 word \<Rightarrow> float64" where
  "percentage a b =
     roundToDecimalPlaces (f64_mul (f64_div (f64_of_int a) (f64_of_int b)) (Finite 100))
       UptimePrecision"

definition GetUptimePercentage :: "TimeframeStats \<Rightarrow> float64" where
  "GetUptimePercentage ts =
     (if TimeframeStats.TotalChecks ts = 0 then Finite 0
      else percentage (SuccessChecks ts) (TimeframeStats.TotalChecks ts))"

text \<open>\<open>len\<close> of a slice as a Go \<open>int\<close>.\<close>

definition len :: "'a list \<Rightarrow> 64 word" where
  "len xs = of_nat (length xs)"

definition GetMeanLatency :: "TimeframeStats \<Rightarrow> float64" where
  "GetMeanLatency ts =
     (if length (Latencies ts) = 0 then Finite 0
      else roundToDecimalPlaces (f64_div (SumLatency ts) (f64_of_int (len (Latencies ts))))
             LatencyPrecision)"

definition GetProviderUptime :: "TimeframeStats \<Rightarrow> string \<Rightarrow> float64" where
  "GetProviderUptime ts provider =
     (if provider = ''primary'' then
        (if PrimaryTotal ts = 0 then Finite 0
         else percentage (PrimarySuccess ts) (PrimaryTotal ts))
      else if provider = ''secondary'' then
        (if SecondaryTotal ts = 0 then Finite 0
         else percentage (SecondarySuccess ts) (SecondaryTotal ts))
      else Finite 0)"

text \<open>
  \<open>GetProviderMeanLatency\<close> does not read its receiver: it walks the log history it is
  given. \<open>mean_loop\<close> is its loop, with the running sum and count.
\<close>

fun mean_loop :: "string \<Rightarrow> string \<Rightarrow> PingLog list \<Rightarrow> float64 \<Rightarrow> 64 word \<Rightarrow> float64 \<times> 64 word" where
  "mean_loop provider siteID [] sum0 count0 = (sum0, count0)"
| "mean_loop provider siteID (log0 # rest) sum0 count0 =
     (if PingLog.SiteID log0 \<noteq> siteID \<or> \<not> PingLog.Success log0
         \<or> PingLog.Latency log0 = None \<or> PingLog.Target log0 \<noteq> provider
      then mean_loop provider siteID rest sum0 count0
      else (case PingLog.Latency log0 of
              None \<Rightarrow> mean_loop provider siteID rest sum0 count0
            | Some latency \<Rightarrow> mean_loop provider siteID rest (f64_add sum0 latency) (count0 + 1)))"

definition GetProviderMeanLatency ::
  "TimeframeStats \<Rightarrow> string \<Rightarrow> PingLog list \<Rightarrow> string \<Rightarrow> float64" where
  "GetProviderMeanLatency ts provider allLogs siteID =
     (case mean_loop provider siteID allLogs (Finite 0) 0 of
        (sum1, count1) \<Rightarrow>
          if count1 = 0 then Finite 0
          else roundToDecimalPlaces (f64_div sum1 (f64_of_int count1)) LatencyPrecision)"

text \<open>The mean of a slice of samples that is known not to be empty.\<close>

definition mean_of :: "float64 list \<Rightarrow> int \<Rightarrow> float64" where
  "mean_of vs places =
     roundToDecimalPlaces (f64_div (foldl f64_add (Finite 0) vs) (f64_of_int (len vs))) places"

definition GetProviderMeanJitter :: "TimeframeStats \<Rightarrow> string \<Rightarrow> float64" where
  "GetProviderMeanJitter ts provider =
     (if provider = ''primary'' then
        (if length (PrimaryJitterValues ts) = 0 then Finite 0
         else mean_of (PrimaryJitterValues ts) LatencyPrecision)
      else if provider = ''secondary'' then
        (if length (SecondaryJitterValues ts) = 0 then Finite 0
         else mean_of (SecondaryJitterValues ts) LatencyPrecision)
      else Finite 0)"

definition GetProviderMeanPacketLoss :: "TimeframeStats \<Rightarrow> string \<Rightarrow> float64" where
  "GetProviderMeanPacketLoss ts provider =
     (if provider = ''primary'' then
        (if length (PrimaryPacketLossValues ts) = 0 then Finite 0
         else mean_of (PrimaryPacketLossValues ts) UptimePrecision)
      else if provider = ''secondary'' then
        (if length (SecondaryPacketLossValues ts) = 0 then Finite 0
         else mean_of (SecondaryPacketLossValues ts) UptimePrecision)
      else Finite 0)"

text \<open>The smallest and the largest of a slice, from its first element on.\<close>

definition least_of :: "float64 list \<Rightarrow> float64" where
  "least_of vs = (case vs of [] \<Rightarrow> Finite 0
     | v # rest \<Rightarrow> roundToDecimalPlaces
         (foldl (\<lambda>m latency. if f64_less latency m then latency else m) v rest) LatencyPrecision)"

definition greatest_of :: "float64 list \<Rightarrow> float64" where
  "greatest_of vs = (case vs of [] \<Rightarrow> Finite 0
     | v # rest \<Rightarrow> roundToDecimalPlaces
         (foldl (\<lambda>m latency. if f64_less m latency then latency else m) v rest) LatencyPrecision)"

definition GetProviderMinLatency :: "TimeframeStats \<Rightarrow> string \<Rightarrow> float64" where
  "GetProviderMinLatency ts provider =
     (if provider = ''primary'' then least_of (PrimaryMinLatencies ts)
      else if provider = ''secondary'' then least_of (SecondaryMinLatencies ts)
      else Finite 0)"

definition GetProviderMaxLatency :: "TimeframeStats \<Rightarrow> string \<Rightarrow> float64" where
  "GetProviderMaxLatency ts provider =
     (if provider = ''primary'' then greatest_of (PrimaryMaxLatencies ts)
      else if provider = ''secondary'' then greatest_of (SecondaryMaxLatencies ts)
      else Finite 0)"

definition bucketIndex :: "float64 \<Rightarrow> nat" where
  "bucketIndex latency =
     (if f64_le latency LatencyBucket1 then 0
      else if f64_le latency LatencyBucket2 then 1
      else if f64_le latency LatencyBucket3 then 2
      else if f64_le latency LatencyBucket4 then 3
      else if f64_le latency LatencyBucket5 then 4
      else 5)"

definition GetLatencyDistribution :: "TimeframeStats \<Rightarrow> float64 list" where
  "GetLatencyDistribution ts =
     foldl (\<lambda>distribution latency.
              distribution[bucketIndex latency :=
                f64_add (distribution ! bucketIndex latency) (Finite 1)])
       (replicate 6 (Finite 0)) (Latencies ts)"


text \<open>
  The four aggregates of \<open>CalculateSiteStatistics\<close> (the map with the keys \<open>all\<close>,
  \<open>24h\<close>, \<open>7d\<close> and \<open>12m\<close>) and the time of the last failure, as its single pass
  over the history builds them.
\<close>

record Frames =
  stats_all :: TimeframeStats
  stats_24h :: TimeframeStats
  stats_7d :: TimeframeStats
  stats_12m :: TimeframeStats
  lastIncidentTime :: Time

fun stats_loop :: "string \<Rightarrow> Time \<Rightarrow> Time \<Rightarrow> Time \<Rightarrow> PingLog list \<Rightarrow> Frames \<Rightarrow> Frames" where
  "stats_loop siteID day24h day7d month12 [] fr = fr"
| "stats_loop siteID day24h day7d month12 (pingLog # rest) fr =
     (if PingLog.SiteID pingLog \<noteq> siteID then stats_loop siteID day24h day7d month12 rest fr
      else if validateLogData pingLog \<noteq> None
      then stats_loop siteID day24h day7d month12 rest fr
      else
        let fr1 = fr\<lparr>stats_all := AddLog (stats_all fr) pingLog\<rparr>;
            fr2 = (if \<not> PingLog.Success pingLog \<and> PingLog.Timestamp pingLog > lastIncidentTime fr1
                   then fr1\<lparr>lastIncidentTime := PingLog.Timestamp pingLog\<rparr> else fr1);
            logTime = PingLog.Timestamp pingLog;
            fr3 = (if logTime > day24h then fr2\<lparr>stats_24h := AddLog (stats_24h fr2) pingLog\<rparr>
                   else fr2);
            fr4 = (if logTime > day7d then fr3\<lparr>stats_7d := AddLog (stats_7d fr3) pingLog\<rparr>
                   else fr3);
            fr5 = (if logTime > month12 then fr4\<lparr>stats_12m := AddLog (stats_12m fr4) pingLog\<rparr>
                   else fr4)
        in stats_loop siteID day24h day7d month12 rest fr5)"

text \<open>
  \<open>SiteStatistics\<close> without its two texts about the last incident (\<open>LastIncident\<close>,
  \<open>LastIncidentDuration\<close>), which are formatted from \<open>lastIncidentTime\<close>.
\<close>

record SiteStatistics =
  CurrentLatencyPrimary :: "float64 option"
  CurrentLatencySecondary :: "float64 option"
  MeanLatencyPrimary :: float64
  MeanLatencySecondary :: float64
  MinLatencyPrimary :: float64
  MinLatencySecondary :: float64
  MaxLatencyPrimary :: float64
  MaxLatencySecondary :: float64
  JitterPrimary :: float64
  JitterSecondary :: float64
  PacketsReceivedPrimary :: "64 word"
  PacketsReceivedSecondary :: "64 word"
  TotalPacketsPrimary :: "64 word"
  TotalPacketsSecondary :: "64 word"
  PacketLossPrimary :: float64
  PacketLossSecondary :: float64
  DuplicatePacketsPrimary :: "64 word"
  DuplicatePacketsSecondary :: "64 word"
  Uptime24h :: float64
  Uptime7d :: float64
  Uptime12m :: float64
  UptimePrimary :: float64
  UptimeSecondary :: float64
  PrimaryUptime24h :: float64
  SecondaryUptime24h :: float64
  PrimaryUptime7d :: float64
  SecondaryUptime7d :: float64
  PrimaryUptime12m :: float64
  SecondaryUptime12m :: float64
  AvgLatency :: float64
  MinLatency :: float64
  MaxLatency :: float64
  SuccessRate :: float64
  TotalChecks :: "64 word"

text \<open>
  \<open>CalculateSiteStatistics\<close>. \<open>allLogs\<close> is what \<open>GetAllLogs\<close> returned from the
  backend, \<open>now\<close> the clock read once at the start, and \<open>month12\<close> the calendar date
  \<open>now.AddDate(-1, 0, 0)\<close>.
\<close>

definition CalculateSiteStatistics ::
  "'s AppState \<Rightarrow> PingLog list \<Rightarrow> Time \<Rightarrow> Time \<Rightarrow> string \<Rightarrow> SiteStatistics" where
  "CalculateSiteStatistics app allLogs now month12 siteID =
     (let day24h = now - HoursPerDay * Hour;
          day7d = now - DaysPerWeek * HoursPerDay * Hour;
          fr = stats_loop siteID day24h day7d month12 allLogs
                 \<lparr> stats_all = NewTimeframeStats, stats_24h = NewTimeframeStats,
                   stats_7d = NewTimeframeStats, stats_12m = NewTimeframeStats,
                   lastIncidentTime = zeroTime \<rparr>;
          allStats = stats_all fr;
          stats24h = stats_24h fr;
          stats7d = stats_7d fr;
          stats12m = stats_12m fr;
          some = (length (Latencies allStats) > 0);
          avgLatency = (if some then GetMeanLatency allStats else Finite 0);
          minLatencyResult =
            (if some then roundToDecimalPlaces (TimeframeStats.MinLatency allStats) LatencyPrecision
             else Finite 0);
          maxLatencyResult =
            (if some then roundToDecimalPlaces (TimeframeStats.MaxLatency allStats) LatencyPrecision
             else Finite 0);
          successRate =
            (if 0 <s TimeframeStats.TotalChecks allStats
             then percentage (SuccessChecks allStats) (TimeframeStats.TotalChecks allStats)
             else Finite 0);
          status = AppState.SiteStatus app siteID;
          currentLatencyPrimary = (case status of None \<Rightarrow> None | Some st \<Rightarrow> PrimaryLatency st);
          currentLatencySecondary =
            (case status of None \<Rightarrow> None | Some st \<Rightarrow> SecondaryLatency st);
          meanLatencyPrimary = GetProviderMeanLatency allStats ''primary'' allLogs siteID;
          meanLatencySecondary = GetProviderMeanLatency allStats ''secondary'' allLogs siteID
      in \<lparr> CurrentLatencyPrimary = currentLatencyPrimary,
           CurrentLatencySecondary = currentLatencySecondary,
           MeanLatencyPrimary = meanLatencyPrimary,
           MeanLatencySecondary = meanLatencySecondary,
           MinLatencyPrimary = GetProviderMinLatency allStats ''primary'',
           MinLatencySecondary = GetProviderMinLatency allStats ''secondary'',
           MaxLatencyPrimary = GetProviderMaxLatency allStats ''primary'',
           MaxLatencySecondary = GetProviderMaxLatency allStats ''secondary'',
           JitterPrimary = GetProviderMeanJitter allStats ''primary'',
           JitterSecondary = GetProviderMeanJitter allStats ''secondary'',
           PacketsReceivedPrimary = PrimaryPacketsReceived allStats,
           PacketsReceivedSecondary = SecondaryPacketsReceived allStats,
           TotalPacketsPrimary = PrimaryPacketsSent allStats,
           TotalPacketsSecondary = SecondaryPacketsSent allStats,
           PacketLossPrimary = GetProviderMeanPacketLoss allStats ''primary'',
           PacketLossSecondary = GetProviderMeanPacketLoss allStats ''secondary'',
           DuplicatePacketsPrimary = PrimaryPacketsDuplicates allStats,
           DuplicatePacketsSecondary = SecondaryPacketsDuplicates allStats,
           Uptime24h = GetUptimePercentage stats24h,
           Uptime7d = GetUptimePercentage stats7d,
           Uptime12m = GetUptimePercentage stats12m,
           UptimePrimary = GetProviderUptime stats24h ''primary'',
           UptimeSecondary = GetProviderUptime stats24h ''secondary'',
           PrimaryUptime24h = GetProviderUptime stats24h ''primary'',
           SecondaryUptime24h = GetProviderUptime stats24h ''secondary'',
           PrimaryUptime7d = GetProviderUptime stats7d ''primary'',
           SecondaryUptime7d = GetProviderUptime stats7d ''secondary'',
           PrimaryUptime12m = GetProviderUptime stats12m ''primary'',
           SecondaryUptime12m = GetProviderUptime stats12m ''secondary'',
           AvgLatency = avgLatency,
           SiteStatistics.MinLatency = minLatencyResult,
           SiteStatistics.MaxLatency = maxLatencyResult,
           SuccessRate = successRate,
           SiteStatistics.TotalChecks = TimeframeStats.TotalChecks allStats \<rparr>)"

text \<open>
  \<open>generateDistributionChart\<close>: the latency distribution since an instant, overall and
  per line. Its loop adds to three aggregates.
\<close>

record ChartDataResult =
  Labels :: "string list"
  CombinedData :: "float64 list"
  PrimaryData :: "float64 list"
  SecondaryData :: "float64 list"

fun distribution_loop :: "string \<Rightarrow> Time \<Rightarrow> PingLog list
    \<Rightarrow> TimeframeStats \<times> TimeframeStats \<times> TimeframeStats
    \<Rightarrow> TimeframeStats \<times> TimeframeStats \<times> TimeframeStats" where
  "distribution_loop siteID since [] acc = acc"
| "distribution_loop siteID since (log0 # rest) (stats, primaryStats, secondaryStats) =
     (if PingLog.SiteID log0 \<noteq> siteID \<or> PingLog.Timestamp log0 < since
         \<or> \<not> PingLog.Success log0 \<or> PingLog.Latency log0 = None
      then distribution_loop siteID since rest (stats, primaryStats, secondaryStats)
      else distribution_loop siteID since rest
             (AddLog stats log0,
              if PingLog.Target log0 = ''primary'' then AddLog primaryStats log0 else primaryStats,
              if PingLog.Target log0 \<noteq> ''primary'' \<and> PingLog.Target log0 = ''secondary''
              then AddLog secondaryStats log0 else secondaryStats))"

definition generateDistributionChart :: "PingLog list \<Rightarrow> string \<Rightarrow> Time \<Rightarrow> ChartDataResult" where
  "generateDistributionChart allLogs siteID since =
     (case distribution_loop siteID since allLogs
             (NewTimeframeStats, NewTimeframeStats, NewTimeframeStats) of
        (stats, primaryStats, secondaryStats) \<Rightarrow>
          \<lparr> Labels = [''0-10ms'', ''10-50ms'', ''50-100ms'', ''100-200ms'', ''200-500ms'', ''500ms+''],
            CombinedData = GetLatencyDistribution stats,
            PrimaryData = GetLatencyDistribution primaryStats,
            SecondaryData = GetLatencyDistribution secondaryStats \<rparr>)"

subsection \<open>Event derivation\<close>

text \<open>
  The event that \<open>GetRecentEvents\<close> makes of the entry that shows a line's new status.
  \<open>strings.Title\<close> is a function of Go's library: the parameter \<open>title\<close>.
\<close>

definition event_of :: "(string \<Rightarrow> string) \<Rightarrow> PingLog \<Rightarrow> RecentEvent" where
  "event_of title pingLog =
     (if PingLog.Success pingLog
      then \<lparr> RecentEvent.Timestamp = PingLog.Timestamp pingLog, Status = ''restored'',
             Message = title (PingLog.Target pingLog) @ '' connection restored'',
             RecentEvent.SiteID = PingLog.SiteID pingLog,
             RecentEvent.Target = PingLog.Target pingLog, IsOutage = False \<rparr>
      else \<lparr> RecentEvent.Timestamp = PingLog.Timestamp pingLog, Status = ''failed'',
             Message = title (PingLog.Target pingLog) @ '' connection lost'',
             RecentEvent.SiteID = PingLog.SiteID pingLog,
             RecentEvent.Target = PingLog.Target pingLog, IsOutage = True \<rparr>)"








section \<open>Example inputs\<close>

text \<open>
  Concrete inputs at which the theorems below are instantiated: a probe that fails and
  one that succeeds, each counting its invocations in the world, and a breaker that has
  tripped at time 100.
\<close>

definition probe_down :: "nat \<Rightarrow> string option \<times> nat" where
  "probe_down w = (Some ''no packets received'', Suc w)"

definition probe_up :: "nat \<Rightarrow> string option \<times> nat" where
  "probe_up w = (None, Suc w)"

definition tripped :: CircuitBreaker where
  "tripped = \<lparr> name = ''s1/primary'', maxFailures = 3, resetTimeout = 60, state = StateOpen,
       failures = 3, lastFailTime = 100, onStateChange = True, notified = [] \<rparr>"

text \<open>
  A log entry as a successful probe of the primary line of site \<open>s1\<close> leaves it, with
  the time \<open>n\<close>, and a store of capacity 2 that is full.
\<close>

definition sample :: "nat \<Rightarrow> PingLog" where
  "sample n = \<lparr> PingLog.ID = 0, PingLog.Timestamp = int n, PingLog.SiteID = ''s1'',
       PingLog.SiteName = ''Site 1'', PingLog.Target = ''primary'', PingLog.IP = ''192.0.2.1'',
       PingLog.Success = True, PingLog.Latency = Some (Finite 12), PingLog.Error = [],
       PingLog.PacketsSent = 3, PingLog.PacketsRecv = 3, PingLog.PacketsDuplicates = 0,
       PingLog.PacketLoss = Some (Finite 0), PingLog.MinLatency = Some (Finite 11),
       PingLog.MaxLatency = Some (Finite 13), PingLog.Jitter = Some (Finite 1) \<rparr>"

definition small_store :: MemoryStorage where
  "small_store = \<lparr> logs = [(sample 1)\<lparr>PingLog.ID := 1\<rparr>, (sample 2)\<lparr>PingLog.ID := 2\<rparr>],
                   maxLogs = 2, logCounter = 2 \<rparr>"


text \<open>
  A dual-line and a single-line site, a successful probe result, the status of a site
  that has not been seen online, an application state after start-up, and a backend
  whose append fails.
\<close>

definition site_dual :: Site where
  "site_dual = \<lparr> Site.ID = ''s1'', Name = ''Site 1'', Location = ''Berlin'',
       PrimaryIP = ''192.0.2.1'', SecondaryIP = ''192.0.2.2'', PrimaryProvider = [],
       SecondaryProvider = [], Interval = 30, Enabled = True \<rparr>"

definition site_single :: Site where
  "site_single = \<lparr> Site.ID = ''s2'', Name = ''Site 2'', Location = ''Hamburg'',
       PrimaryIP = ''198.51.100.1'', SecondaryIP = [], PrimaryProvider = [],
       SecondaryProvider = [], Interval = 30, Enabled = True \<rparr>"

definition result_up :: "string \<Rightarrow> string \<Rightarrow> PingResult" where
  "result_up site line = \<lparr> PingResult.SiteID = site, PingResult.IP = ''192.0.2.1'',
       LineType = line, PingResult.Success = True, PingResult.Latency = Some (Finite 12),
       PingResult.Error = [], PingResult.Timestamp = 2000, PingResult.PacketsSent = 3,
       PingResult.PacketsRecv = 3, PingResult.PacketsDuplicates = 0,
       PingResult.PacketLoss = Some (Finite 0), PingResult.MinLatency = Some (Finite 11),
       PingResult.MaxLatency = Some (Finite 13), PingResult.Jitter = Some (Finite 1) \<rparr>"

definition offline :: "string \<Rightarrow> SiteStatus" where
  "offline site = \<lparr> SiteStatus.SiteID = site, PrimaryOnline = False, SecondaryOnline = False,
       BothOnline = False, PrimaryLatency = None, SecondaryLatency = None,
       LastCheck = 1000, PrimaryError = [], SecondaryError = [] \<rparr>"

definition started :: "MemoryStorage AppState" where
  "started = \<lparr> Sites = [site_dual, site_single],
       AppState.SiteStatus = [''s1'' \<mapsto> offline ''s1'', ''s2'' \<mapsto> offline ''s2''],
       Storage = small_store, StartTime = 1000, AppState.TotalChecks = 0 \<rparr>"

definition failing_backend :: "MemoryStorage \<Rightarrow> PingLog \<Rightarrow> string option \<times> MemoryStorage" where
  "failing_backend st entry = (Some ''database is locked'', st)"

text \<open>
  A failed probe as the pipeline logs it.
\<close>

definition lost :: "nat \<Rightarrow> PingLog" where
  "lost n = (sample n)\<lparr>PingLog.Success := False, PingLog.Latency := None,
       PingLog.Error := ''no packets received'', PingLog.PacketsRecv := 0,
       PingLog.PacketLoss := Some (Finite 100), PingLog.MinLatency := None,
       PingLog.MaxLatency := None, PingLog.Jitter := None\<rparr>"

text \<open>
  A successful entry with a latency below zero, a successful entry without latency, all
  the entries of a site whether valid or not, and a stand-in for \<open>strings.Title\<close> that
  leaves a line's name as it is.
\<close>

definition negative :: PingLog where
  "negative = (sample 1)\<lparr>PingLog.Latency := Some (Finite (- 5))\<rparr>"

definition silent :: PingLog where
  "silent = (sample 2)\<lparr>PingLog.Latency := None\<rparr>"



text \<open>
  A test of label values that accepts the strings of 7-bit characters (each of them is
  valid UTF-8); an ordering of rows by descending timestamp, rows of equal timestamp
  latest insertion first; two entries appended with the later timestamp first, in the
  in-memory store and in the table; and a table with an up, a down and an up of one line.
\<close>

definition seven_bit :: "string \<Rightarrow> bool" where
  "seven_bit s = list_all (\<lambda>c. \<not> digit7 c) s"






section \<open>Verification\<close>

text \<open>
  From here on: the properties of the functions above, each with the lemmas it needs.
\<close>

subsection \<open>Circuit breaker\<close>

lemma Sub_mono: "t1 \<le> t2 \<Longrightarrow> Sub t1 u \<le> Sub t2 u"
  by (auto simp: Sub_def Let_def maxDuration_def minDuration_def)

lemma state_setState [simp]: "state (setState cb s) = s"
  by (simp add: setState_def Let_def)

lemma failures_setState [simp]: "failures (setState cb s) = failures cb"
  by (simp add: setState_def Let_def)

lemma lastFailTime_setState [simp]: "lastFailTime (setState cb s) = lastFailTime cb"
  by (simp add: setState_def Let_def)

lemma maxFailures_setState [simp]: "maxFailures (setState cb s) = maxFailures cb"
  by (simp add: setState_def Let_def)

lemma resetTimeout_setState [simp]: "resetTimeout (setState cb s) = resetTimeout cb"
  by (simp add: setState_def Let_def)

lemma name_setState [simp]: "name (setState cb s) = name cb"
  by (simp add: setState_def Let_def)

lemma Call_open_blocked:
  assumes "state cb = StateOpen" "\<not> Since now1 (lastFailTime cb) > resetTimeout cb"
  shows "Call cb now1 now2 now3 fn w = (Some (CircuitBreakerError (name cb) ''open''), cb, w)"
  using assms by (simp add: Call_def canExecute_def getStateString_def)

lemma canExecute_open_elapsed:
  assumes "state cb = StateOpen" "Since now1 (lastFailTime cb) > resetTimeout cb" "now1 \<le> now2"
  shows "canExecute cb now1 now2 = (True, setState cb StateHalfOpen)"
proof -
  have "Since now2 (lastFailTime cb) > resetTimeout cb"
    using assms Sub_mono[of now1 now2 "lastFailTime cb"] by (simp add: Since_def)
  then show ?thesis using assms by (simp add: canExecute_def)
qed

lemma Call_trial_success:
  assumes "state cb = StateOpen" "Since now1 (lastFailTime cb) > resetTimeout cb" "now1 \<le> now2"
    and "fn w = (None, w1)"
  shows "\<exists>cb1. Call cb now1 now2 now3 fn w = (None, cb1, w1) \<and> state cb1 = StateClosed \<and> failures cb1 = 0"
  using assms by (simp add: Call_def canExecute_open_elapsed recordSuccess_def)

lemma Call_trial_failure:
  assumes "state cb = StateOpen" "Since now1 (lastFailTime cb) > resetTimeout cb" "now1 \<le> now2"
    and "fn w = (Some err, w1)"
  shows "\<exists>cb1. Call cb now1 now2 now3 fn w = (Some (ProbeError err), cb1, w1) \<and> state cb1 = StateOpen
     \<and> lastFailTime cb1 = now3"
  using assms by (simp add: Call_def canExecute_open_elapsed recordFailure_def Let_def)

lemma Call_closed_trip:
  assumes "state cb = StateClosed" "fn w = (Some err, w1)" "maxFailures cb \<le>s failures cb + 1"
  shows "\<exists>cb1. Call cb now1 now2 now3 fn w = (Some (ProbeError err), cb1, w1) \<and> state cb1 = StateOpen
     \<and> lastFailTime cb1 = now3"
  using assms by (simp add: Call_def canExecute_def recordFailure_def Let_def)

lemma Call_closed_success:
  assumes "state cb = StateClosed" "fn w = (None, w1)" "0 \<le>s failures cb"
  shows "\<exists>cb1. Call cb now1 now2 now3 fn w = (None, cb1, w1) \<and> state cb1 = StateClosed
     \<and> failures cb1 = 0"
  using assms
  by (auto simp add: Call_def canExecute_def recordSuccess_def Let_def word_sle_eq word_sless_alt
      signed_eq_0_iff)

lemma Call_never_half_open:
  "state (fst (snd (Call cb now1 now2 now3 fn w))) \<noteq> StateHalfOpen"
  by (auto simp add: Call_def canExecute_def recordSuccess_def recordFailure_def Let_def
      split: CircuitBreakerState.splits prod.splits option.splits if_splits)

lemma Calls_open_blocked:
  assumes "state cb = StateOpen" "\<forall>c \<in> set cs. blocked_at cb c"
  shows "Calls cb cs w =
     (replicate (length cs) (Some (CircuitBreakerError (name cb) ''open'')), cb, w)"
  using assms
proof (induction cs)
  case Nil
  then show ?case by simp
next
  case (Cons c cs)
  obtain now1 now2 now3 fn where c: "c = (now1, now2, now3, fn)"
    by (cases c) auto
  from Cons.prems have "\<not> Since now1 (lastFailTime cb) > resetTimeout cb"
    by (simp add: c blocked_at_def)
  then have "Call cb now1 now2 now3 fn w = (Some (CircuitBreakerError (name cb) ''open''), cb, w)"
    using Cons.prems(1) by (rule Call_open_blocked[rotated])
  then show ?case using Cons by (simp add: c)
qed

lemma sint_succ64:
  fixes x m :: "64 word"
  assumes "0 \<le> sint x" "sint x < sint m"
  shows "sint (x + 1) = sint x + 1"
proof -
  have "sint m < 2 ^ 63" using sint_lt[of m] by simp
  then have "sint x + 1 < 2 ^ 63" using assms by linarith
  then show ?thesis using assms
    by (simp add: sint_word_ariths signed_take_bit_int_eq_self)
qed

lemma Calls_closed_failures:
  assumes "state cb = StateClosed" "0 \<le> sint (failures cb)"
    and "sint (failures cb) + int (length cs) < sint (maxFailures cb)"
    and "\<forall>c \<in> set cs. probe_fails c"
  shows "\<exists>rs cb1 w1. Calls cb cs w = (rs, cb1, w1) \<and> state cb1 = StateClosed
      \<and> sint (failures cb1) = sint (failures cb) + int (length cs)
      \<and> maxFailures cb1 = maxFailures cb
      \<and> (\<forall>r \<in> set rs. \<exists>err. r = Some (ProbeError err))"
  using assms
proof (induction cs arbitrary: cb w)
  case Nil
  then show ?case by simp
next
  case (Cons c cs)
  obtain now1 now2 now3 fn where c: "c = (now1, now2, now3, fn)"
    by (cases c) auto
  obtain err w0 where fn: "fn w = (Some err, w0)"
    using Cons.prems(4) by (cases "fn w") (auto simp: c probe_fails_def dest: spec[of _ w])
  have s1: "sint (failures cb + 1) = sint (failures cb) + 1"
    using Cons.prems by (intro sint_succ64[of _ "maxFailures cb"]) auto
  have nt: "\<not> maxFailures cb \<le>s failures cb + 1"
    using Cons.prems s1 by (simp add: word_sle_eq)
  obtain cb0 where cb0: "Call cb now1 now2 now3 fn w = (Some (ProbeError err), cb0, w0)"
      "state cb0 = StateClosed" "failures cb0 = failures cb + 1" "maxFailures cb0 = maxFailures cb"
    using Cons.prems(1) fn nt
    by (simp add: Call_def canExecute_def recordFailure_def Let_def)
  have "\<exists>rs cb1 w1. Calls cb0 cs w0 = (rs, cb1, w1) \<and> state cb1 = StateClosed
      \<and> sint (failures cb1) = sint (failures cb0) + int (length cs)
      \<and> maxFailures cb1 = maxFailures cb0
      \<and> (\<forall>r \<in> set rs. \<exists>err. r = Some (ProbeError err))"
    using Cons.prems cb0 s1 by (intro Cons.IH) auto
  then show ?case using cb0 s1 by (auto simp: c)
qed

lemma Calls_append:
  "Calls cb (cs @ ds) w =
     (case Calls cb cs w of (rs, cb1, w1) \<Rightarrow>
        (case Calls cb1 ds w1 of (rs2, cb2, w2) \<Rightarrow> (rs @ rs2, cb2, w2)))"
  by (induction cs arbitrary: cb w) (auto split: prod.splits)

lemma Calls_threshold:
  assumes "state cb = StateClosed" "failures cb = 0" "0 <s maxFailures cb"
    and "length cs = nat (sint (maxFailures cb))"
    and "\<forall>c \<in> set cs. probe_fails c"
  shows "\<exists>rs cb1 w1. Calls cb cs w = (rs, cb1, w1) \<and> state cb1 = StateOpen
      \<and> (\<forall>r \<in> set rs. \<exists>err. r = Some (ProbeError err))"
proof -
  have pos: "0 < sint (maxFailures cb)" using assms(3) by (simp add: word_sless_alt)
  then have "cs \<noteq> []" using assms(4) by auto
  then obtain ds c where cs: "cs = ds @ [c]" by (metis rev_exhaust)
  obtain now1 now2 now3 fn where c: "c = (now1, now2, now3, fn)"
    by (cases c) auto
  have len: "int (length ds) = sint (maxFailures cb) - 1" using assms(4) pos by (simp add: cs)
  obtain rs cb0 w0 where run: "Calls cb ds w = (rs, cb0, w0)" "state cb0 = StateClosed"
      "sint (failures cb0) = int (length ds)" "maxFailures cb0 = maxFailures cb"
      "\<forall>r \<in> set rs. \<exists>err. r = Some (ProbeError err)"
    using Calls_closed_failures[of cb ds w] assms len by (auto simp: cs)
  obtain err w1 where fn: "fn w0 = (Some err, w1)"
    using assms(5) by (cases "fn w0") (auto simp: cs c probe_fails_def dest: spec[of _ w0])
  have "sint (failures cb0 + 1) = sint (failures cb0) + 1"
    using run len pos by (intro sint_succ64[of _ "maxFailures cb"]) auto
  then have "maxFailures cb0 \<le>s failures cb0 + 1"
    using run len by (simp add: word_sle_eq)
  then obtain cb1 where "Call cb0 now1 now2 now3 fn w0 = (Some (ProbeError err), cb1, w1)"
      "state cb1 = StateOpen"
    using Call_closed_trip[of cb0 fn w0 err w1 now1 now2 now3] run(2) fn by blast
  then show ?thesis using run by (auto simp: cs c Calls_append)
qed


lemma counter_ok_New: "counter_ok (NewCircuitBreaker nm maxF timeout)"
  by (simp add: counter_ok_def NewCircuitBreaker_def)

lemma counter_ok_SetOnStateChange: "counter_ok cb \<Longrightarrow> counter_ok (SetOnStateChange cb)"
  by (simp add: counter_ok_def SetOnStateChange_def)

lemma sint_one64: "sint (1 :: 64 word) = 1"
  by simp

lemma counter_ok_recordFailure:
  assumes "counter_ok cb \<or> state cb = StateHalfOpen"
  shows "counter_ok (recordFailure cb now)"
proof (cases "state cb")
  case StateClosed
  then have c: "0 \<le> sint (failures cb)"
      "failures cb = 0 \<or> sint (failures cb) < sint (maxFailures cb)"
    using assms by (auto simp: counter_ok_def word_sle_eq word_sless_alt)
  have s: "sint (failures cb + 1) = sint (failures cb) + 1"
  proof (cases "failures cb = 0")
    case True
    then show ?thesis by simp
  next
    case False
    then show ?thesis using c by (intro sint_succ64[of _ "maxFailures cb"]) auto
  qed
  show ?thesis
    using StateClosed c s
    by (auto simp: counter_ok_def recordFailure_def Let_def word_sle_eq word_sless_alt)
next
  case StateHalfOpen
  then show ?thesis by (simp add: counter_ok_def recordFailure_def Let_def)
next
  case StateOpen
  then show ?thesis by (simp add: counter_ok_def recordFailure_def Let_def)
qed

lemma counter_ok_recordSuccess:
  assumes "counter_ok cb \<or> state cb = StateHalfOpen"
  shows "counter_ok (recordSuccess cb)"
  using assms
  by (cases "state cb") (auto simp: counter_ok_def recordSuccess_def word_sle_eq word_sless_alt)

lemma canExecute_cases:
  "canExecute cb now1 now2 = (ok, cb1) \<Longrightarrow>
     (cb1 = cb \<and> (ok \<longleftrightarrow> state cb \<noteq> StateOpen))
     \<or> (ok \<and> state cb = StateOpen \<and> cb1 = setState cb StateHalfOpen)"
  by (cases "state cb") (auto simp: canExecute_def Let_def split: if_splits)

lemma counter_ok_Call:
  assumes "counter_ok cb"
  shows "counter_ok (fst (snd (Call cb now1 now2 now3 fn w)))"
proof -
  obtain ok cb1 where ce: "canExecute cb now1 now2 = (ok, cb1)"
    by (cases "canExecute cb now1 now2") auto
  from canExecute_cases[OF ce] have pre: "\<not> ok \<and> cb1 = cb \<or> ok \<and> (counter_ok cb1 \<or> state cb1 = StateHalfOpen)"
    using assms by auto
  show ?thesis
  proof (cases ok)
    case False
    then show ?thesis using pre ce assms by (simp add: Call_def)
  next
    case True
    then have "counter_ok cb1 \<or> state cb1 = StateHalfOpen" using pre by simp
    then show ?thesis
      using True ce counter_ok_recordFailure[of cb1 now3] counter_ok_recordSuccess[of cb1]
      by (auto simp: Call_def split: prod.splits option.splits)
  qed
qed


text \<open>
  Claim C1. The breaker is a state machine over Closed, Open and Half-Open with a counter
  of consecutive failures. (1) In Closed, the failure that brings the counter to the
  threshold opens the breaker. (2) A Closed breaker with counter 0 and a positive
  threshold is open after that many failing calls, each of which ran its probe. (3) In
  Closed a success sets the counter to 0. (4) In Open, every call made while no more than
  the reset timeout has passed since the last failure returns the circuit-open error and
  leaves the breaker and the world as they were, so the probe did not run. (5, 6) In
  Open, a call made after the reset timeout has passed runs the probe once: a success
  closes the breaker with counter 0, a failure opens it again and restarts the timeout.
  (7) No call leaves the breaker Half-Open, so the trial is the only probe that runs in
  that state. (8, 9) A new breaker is Closed with counter 0, and what is assumed of the
  counter in (3) holds of a new breaker and after every call.
\<close>

theorem circuit_breaker_state_machine:
  fixes cb :: CircuitBreaker and fn :: "'w \<Rightarrow> 'e option \<times> 'w" and cs :: "('w, 'e) call list"
  shows
  "(state cb = StateClosed \<and> fn w = (Some err, w1) \<and> maxFailures cb \<le>s failures cb + 1 \<longrightarrow>
      (\<exists>cb1. Call cb now1 now2 now3 fn w = (Some (ProbeError err), cb1, w1)
         \<and> state cb1 = StateOpen \<and> lastFailTime cb1 = now3))
   \<and> (state cb = StateClosed \<and> failures cb = 0 \<and> 0 <s maxFailures cb
        \<and> length cs = nat (sint (maxFailures cb)) \<and> (\<forall>c \<in> set cs. probe_fails c) \<longrightarrow>
      (\<exists>rs cb1 w1. Calls cb cs w = (rs, cb1, w1)
         \<and> state cb1 = StateOpen \<and> (\<forall>r \<in> set rs. \<exists>err. r = Some (ProbeError err))))
   \<and> (state cb = StateClosed \<and> counter_ok cb \<and> fn w = (None, w1) \<longrightarrow>
      (\<exists>cb1. Call cb now1 now2 now3 fn w = (None, cb1, w1)
         \<and> state cb1 = StateClosed \<and> failures cb1 = 0))
   \<and> (state cb = StateOpen \<and> (\<forall>c \<in> set cs. blocked_at cb c) \<longrightarrow>
      Calls cb cs w =
        (replicate (length cs) (Some (CircuitBreakerError (name cb) ''open'')), cb, w))
   \<and> (state cb = StateOpen \<and> resetTimeout cb < Since now1 (lastFailTime cb) \<and> now1 \<le> now2
        \<and> fn w = (None, w1) \<longrightarrow>
      (\<exists>cb1. Call cb now1 now2 now3 fn w = (None, cb1, w1)
         \<and> state cb1 = StateClosed \<and> failures cb1 = 0))
   \<and> (state cb = StateOpen \<and> resetTimeout cb < Since now1 (lastFailTime cb) \<and> now1 \<le> now2
        \<and> fn w = (Some err, w1) \<longrightarrow>
      (\<exists>cb1. Call cb now1 now2 now3 fn w = (Some (ProbeError err), cb1, w1)
         \<and> state cb1 = StateOpen \<and> lastFailTime cb1 = now3))
   \<and> state (fst (snd (Call cb now1 now2 now3 fn w))) \<noteq> StateHalfOpen
   \<and> (state (NewCircuitBreaker nm maxF timeout) = StateClosed
        \<and> failures (NewCircuitBreaker nm maxF timeout) = 0
        \<and> counter_ok (NewCircuitBreaker nm maxF timeout))
   \<and> (counter_ok cb \<longrightarrow> counter_ok (fst (snd (Call cb now1 now2 now3 fn w))))"
proof (intro conjI impI)
  assume "state cb = StateClosed \<and> fn w = (Some err, w1) \<and> maxFailures cb \<le>s failures cb + 1"
  then show "\<exists>cb1. Call cb now1 now2 now3 fn w = (Some (ProbeError err), cb1, w1)
         \<and> state cb1 = StateOpen \<and> lastFailTime cb1 = now3"
    using Call_closed_trip[of cb fn w err w1 now1 now2 now3] by blast
next
  assume a: "state cb = StateClosed \<and> failures cb = 0 \<and> 0 <s maxFailures cb
        \<and> length cs = nat (sint (maxFailures cb)) \<and> (\<forall>c \<in> set cs. probe_fails c)"
  show "\<exists>rs cb1 w1. Calls cb cs w = (rs, cb1, w1)
         \<and> state cb1 = StateOpen \<and> (\<forall>r \<in> set rs. \<exists>err. r = Some (ProbeError err))"
    using a by (intro Calls_threshold) simp_all
next
  assume a: "state cb = StateClosed \<and> counter_ok cb \<and> fn w = (None, w1)"
  then have "0 \<le>s failures cb" by (simp add: counter_ok_def)
  then show "\<exists>cb1. Call cb now1 now2 now3 fn w = (None, cb1, w1)
         \<and> state cb1 = StateClosed \<and> failures cb1 = 0"
    using a Call_closed_success[of cb fn w w1 now1 now2 now3] by blast
next
  assume "state cb = StateOpen \<and> (\<forall>c \<in> set cs. blocked_at cb c)"
  then show "Calls cb cs w =
        (replicate (length cs) (Some (CircuitBreakerError (name cb) ''open'')), cb, w)"
    using Calls_open_blocked[of cb cs w] by blast
next
  assume "state cb = StateOpen \<and> resetTimeout cb < Since now1 (lastFailTime cb) \<and> now1 \<le> now2
        \<and> fn w = (None, w1)"
  then show "\<exists>cb1. Call cb now1 now2 now3 fn w = (None, cb1, w1)
         \<and> state cb1 = StateClosed \<and> failures cb1 = 0"
    using Call_trial_success[of cb now1 now2 fn w w1 now3] by blast
next
  assume "state cb = StateOpen \<and> resetTimeout cb < Since now1 (lastFailTime cb) \<and> now1 \<le> now2
        \<and> fn w = (Some err, w1)"
  then show "\<exists>cb1. Call cb now1 now2 now3 fn w = (Some (ProbeError err), cb1, w1)
         \<and> state cb1 = StateOpen \<and> lastFailTime cb1 = now3"
    using Call_trial_failure[of cb now1 now2 fn w err w1 now3] by blast
next
  show "state (fst (snd (Call cb now1 now2 now3 fn w))) \<noteq> StateHalfOpen"
    by (rule Call_never_half_open)
next
  show "state (NewCircuitBreaker nm maxF timeout) = StateClosed"
    by (simp add: NewCircuitBreaker_def)
  show "failures (NewCircuitBreaker nm maxF timeout) = 0"
    by (simp add: NewCircuitBreaker_def)
  show "counter_ok (NewCircuitBreaker nm maxF timeout)"
    by (rule counter_ok_New)
next
  assume "counter_ok cb"
  then show "counter_ok (fst (snd (Call cb now1 now2 now3 fn w)))"
    by (rule counter_ok_Call)
qed

lemma Since_eval:
  "Since a b = (if a - b > 2 ^ 63 - 1 then 2 ^ 63 - 1
                else if a - b < - (2 ^ 63) then - (2 ^ 63) else a - b)"
  by (simp add: Since_def Sub_def Let_def maxDuration_def minDuration_def)

theorem circuit_breaker_state_machine_witness:
  "(\<exists>cb1. Call (tripped\<lparr>state := StateClosed, failures := 2\<rparr>) 98 98 99 probe_down 2
            = (Some (ProbeError ''no packets received''), cb1, 3)
          \<and> state cb1 = StateOpen \<and> lastFailTime cb1 = 99)
   \<and> (\<exists>rs cb1 w1. Calls (NewCircuitBreaker ''s1/primary'' 3 60)
            [(10, 10, 11, probe_down), (40, 40, 41, probe_down), (70, 70, 71, probe_down)] 0
            = (rs, cb1, w1)
          \<and> state cb1 = StateOpen \<and> (\<forall>r \<in> set rs. \<exists>err. r = Some (ProbeError err)))
   \<and> (\<exists>cb1. Call (tripped\<lparr>state := StateClosed, failures := 2\<rparr>) 98 98 99 probe_up 2
            = (None, cb1, 3)
          \<and> state cb1 = StateClosed \<and> failures cb1 = 0)
   \<and> Calls tripped [(130, 130, 131, probe_up), (160, 160, 161, probe_up)] 3
        = ([Some (CircuitBreakerError ''s1/primary'' ''open''),
            Some (CircuitBreakerError ''s1/primary'' ''open'')], tripped, 3)
   \<and> (\<exists>cb1. Call tripped 161 161 162 probe_up 3 = (None, cb1, 4)
          \<and> state cb1 = StateClosed \<and> failures cb1 = 0)
   \<and> (\<exists>cb1. Call tripped 161 161 162 probe_down 3
            = (Some (ProbeError ''no packets received''), cb1, 4)
          \<and> state cb1 = StateOpen \<and> lastFailTime cb1 = 162)
   \<and> counter_ok tripped
   \<and> counter_ok (fst (snd (Call tripped 161 161 162 probe_up 3)))"
proof -
  let ?closed = "tripped\<lparr>state := StateClosed, failures := 2\<rparr>"
  let ?new = "NewCircuitBreaker ''s1/primary'' 3 60"
  let ?three = "[(10 :: int, 10 :: int, 11 :: int, probe_down), (40, 40, 41, probe_down),
                 (70, 70, 71, probe_down)]"
  let ?two = "[(130 :: int, 130 :: int, 131 :: int, probe_up), (160, 160, 161, probe_up)]"
  note at_closed_down = circuit_breaker_state_machine[where cb = ?closed
        and fn = probe_down and w = 2 and ?w1.0 = 3 and err = "''no packets received''"
        and ?now1.0 = 98 and ?now2.0 = 98 and ?now3.0 = 99]
  note at_closed_up = circuit_breaker_state_machine[where cb = ?closed
        and fn = probe_up and w = 2 and ?w1.0 = 3
        and ?now1.0 = 98 and ?now2.0 = 98 and ?now3.0 = 99]
  note at_new = circuit_breaker_state_machine[where cb = ?new and fn = probe_up and w = 0
        and cs = ?three]
  note at_open_up = circuit_breaker_state_machine[where cb = tripped and fn = probe_up and w = 3
        and ?w1.0 = 4 and ?now1.0 = 161 and ?now2.0 = 161 and ?now3.0 = 162 and cs = ?two]
  note at_open_down = circuit_breaker_state_machine[where cb = tripped and fn = probe_down
        and w = 3 and ?w1.0 = 4 and ?now1.0 = 161 and ?now2.0 = 161 and ?now3.0 = 162
        and err = "''no packets received''"]
  have trip: "state ?closed = StateClosed
      \<and> probe_down 2 = (Some ''no packets received'', 3)
      \<and> maxFailures ?closed \<le>s failures ?closed + 1"
    by (simp add: tripped_def probe_down_def word_sle_eq)
  have run: "state ?new = StateClosed \<and> failures ?new = 0 \<and> 0 <s maxFailures ?new
      \<and> length ?three = nat (sint (maxFailures ?new))
      \<and> (\<forall>c \<in> set ?three. probe_fails c)"
    by (simp add: NewCircuitBreaker_def word_sless_alt probe_fails_def probe_down_def)
  have reset: "state ?closed = StateClosed \<and> counter_ok ?closed \<and> probe_up 2 = (None, 3)"
    by (simp add: tripped_def probe_up_def counter_ok_def word_sle_eq word_sless_alt)
  have blocked: "state tripped = StateOpen \<and> (\<forall>c \<in> set ?two. blocked_at tripped c)"
    by (simp add: tripped_def blocked_at_def Since_eval)
  have trial_up: "state tripped = StateOpen
      \<and> resetTimeout tripped < Since 161 (lastFailTime tripped) \<and> (161 :: int) \<le> 161
      \<and> probe_up 3 = (None, 4)"
    by (simp add: tripped_def Since_eval probe_up_def)
  have trial_down: "state tripped = StateOpen
      \<and> resetTimeout tripped < Since 161 (lastFailTime tripped) \<and> (161 :: int) \<le> 161
      \<and> probe_down 3 = (Some ''no packets received'', 4)"
    by (simp add: tripped_def Since_eval probe_down_def)
  have ok: "counter_ok tripped"
    by (simp add: tripped_def counter_ok_def)
  have 1: "\<exists>cb1. Call ?closed 98 98 99 probe_down 2
            = (Some (ProbeError ''no packets received''), cb1, 3)
          \<and> state cb1 = StateOpen \<and> lastFailTime cb1 = 99"
    by (rule mp[OF at_closed_down[THEN conjunct1] trip])
  have 2: "\<exists>rs cb1 w1. Calls ?new ?three 0 = (rs, cb1, w1)
          \<and> state cb1 = StateOpen \<and> (\<forall>r \<in> set rs. \<exists>err. r = Some (ProbeError err))"
    by (rule mp[OF at_new[THEN conjunct2, THEN conjunct1] run])
  have 3: "\<exists>cb1. Call ?closed 98 98 99 probe_up 2 = (None, cb1, 3)
          \<and> state cb1 = StateClosed \<and> failures cb1 = 0"
    by (rule mp[OF at_closed_up[THEN conjunct2, THEN conjunct2, THEN conjunct1] reset])
  have "Calls tripped ?two 3
        = (replicate (length ?two) (Some (CircuitBreakerError (name tripped) ''open'')),
           tripped, 3)"
    by (rule mp[OF at_open_up[THEN conjunct2, THEN conjunct2, THEN conjunct2, THEN conjunct1]
          blocked])
  then have 4: "Calls tripped ?two 3
        = ([Some (CircuitBreakerError ''s1/primary'' ''open''),
            Some (CircuitBreakerError ''s1/primary'' ''open'')], tripped, 3)"
    by (simp add: tripped_def)
  have 5: "\<exists>cb1. Call tripped 161 161 162 probe_up 3 = (None, cb1, 4)
          \<and> state cb1 = StateClosed \<and> failures cb1 = 0"
    by (rule mp[OF at_open_up[THEN conjunct2, THEN conjunct2, THEN conjunct2, THEN conjunct2,
          THEN conjunct1] trial_up])
  have 6: "\<exists>cb1. Call tripped 161 161 162 probe_down 3
            = (Some (ProbeError ''no packets received''), cb1, 4)
          \<and> state cb1 = StateOpen \<and> lastFailTime cb1 = 162"
    by (rule mp[OF at_open_down[THEN conjunct2, THEN conjunct2, THEN conjunct2, THEN conjunct2,
          THEN conjunct2, THEN conjunct1] trial_down])
  have 7: "counter_ok (fst (snd (Call tripped 161 161 162 probe_up 3)))"
    by (rule mp[OF at_open_up[THEN conjunct2, THEN conjunct2, THEN conjunct2, THEN conjunct2,
          THEN conjunct2, THEN conjunct2, THEN conjunct2, THEN conjunct2] ok])
  from 1 2 3 4 5 6 ok 7 show ?thesis by (intro conjI)
qed

subsection \<open>In-memory log store\<close>

lemma length_stamped [simp]: "length (stamped c xs) = length xs"
  by (induction xs arbitrary: c) auto

lemma stamped_append:
  "stamped c (xs @ ys) = stamped c xs @ stamped (c + of_nat (length xs)) ys"
  by (induction xs arbitrary: c) (auto simp: algebra_simps)

lemma AddPingLog_step:
  assumes "0 < maxLogs m" "int (length (logs m)) \<le> maxLogs m"
  shows "AddPingLog m x =
     Inr \<lparr> logs = drop (length (logs m) + 1 - nat (maxLogs m))
                   (logs m @ [x\<lparr>PingLog.ID := logCounter m + 1\<rparr>]),
           maxLogs = maxLogs m, logCounter = logCounter m + 1 \<rparr>"
proof (cases "int (length (logs m)) \<ge> maxLogs m")
  case True
  then have len: "length (logs m) = nat (maxLogs m)" using assms by linarith
  then obtain oldest rest where l: "logs m = oldest # rest"
    using assms(1) by (cases "logs m") auto
  have "length (logs m) + 1 - nat (maxLogs m) = 1" using len by simp
  then show ?thesis using True l by (simp add: AddPingLog_def Let_def)
next
  case False
  then have "length (logs m) + 1 - nat (maxLogs m) = 0" by linarith
  then show ?thesis using False by (simp add: AddPingLog_def Let_def)
qed

lemma AddPingLogs_run:
  assumes "0 < maxLogs m" "int (length (logs m)) \<le> maxLogs m"
  shows "AddPingLogs m xs =
     Inr \<lparr> logs = drop (length (logs m) + length xs - nat (maxLogs m))
                   (logs m @ stamped (logCounter m) xs),
           maxLogs = maxLogs m, logCounter = logCounter m + of_nat (length xs) \<rparr>"
  using assms
proof (induction xs arbitrary: m)
  case Nil
  then show ?case by simp
next
  case (Cons x xs)
  let ?x = "x\<lparr>PingLog.ID := logCounter m + 1\<rparr>"
  let ?b = "length (logs m) + 1 - nat (maxLogs m)"
  let ?m1 = "\<lparr> logs = drop ?b (logs m @ [?x]), maxLogs = maxLogs m,
              logCounter = logCounter m + 1 \<rparr>"
  have step: "AddPingLog m x = Inr ?m1"
    using Cons.prems by (rule AddPingLog_step)
  have b: "?b \<le> 1" using Cons.prems by linarith
  have len1: "length (logs ?m1) = length (logs m) + 1 - ?b" by simp
  have wf: "0 < maxLogs ?m1" "int (length (logs ?m1)) \<le> maxLogs ?m1"
    using Cons.prems by auto
  have "AddPingLogs ?m1 xs =
     Inr \<lparr> logs = drop (length (logs ?m1) + length xs - nat (maxLogs ?m1))
                   (logs ?m1 @ stamped (logCounter ?m1) xs),
           maxLogs = maxLogs ?m1, logCounter = logCounter ?m1 + of_nat (length xs) \<rparr>"
    using wf by (rule Cons.IH)
  moreover have "drop (length (logs ?m1) + length xs - nat (maxLogs ?m1))
                   (logs ?m1 @ stamped (logCounter ?m1) xs)
      = drop (length (logs m) + length (x # xs) - nat (maxLogs m))
                   (logs m @ stamped (logCounter m) (x # xs))"
  proof -
    have "?b - length (logs m @ [?x]) = 0" using b by simp
    then have "drop ?b ((logs m @ [?x]) @ stamped (logCounter m + 1) xs)
        = drop ?b (logs m @ [?x]) @ stamped (logCounter m + 1) xs"
      by (simp only: drop_append drop_0)
    then have "logs ?m1 @ stamped (logCounter ?m1) xs
        = drop ?b (logs m @ stamped (logCounter m) (x # xs))"
      by simp
    moreover have "length (logs ?m1) + length xs - nat (maxLogs ?m1) + ?b
        = length (logs m) + length (x # xs) - nat (maxLogs m)"
      using Cons.prems by (simp add: len1)
    ultimately show ?thesis by (simp only: drop_drop)
  qed
  ultimately show ?case using step by (simp add: algebra_simps)
qed

lemma NewMemoryStorage_wf:
  "0 < maxLogs (NewMemoryStorage c) \<and> logs (NewMemoryStorage c) = []
     \<and> logCounter (NewMemoryStorage c) = 0"
  by (simp add: NewMemoryStorage_def Let_def)


lemma stamped_drop:
  "drop n (stamped c xs) = stamped (c + of_nat n) (drop n xs)"
proof (induction xs arbitrary: c n)
  case Nil
  then show ?case by simp
next
  case (Cons x xs)
  then show ?case by (cases n) (auto simp: algebra_simps)
qed

text \<open>
  Claim C3. A store that is within its capacity stays within it under every sequence of
  appends, and holds the last entries of what it held followed by the appended ones, in
  their order and with the identifiers the counter gave them; an append to a full store
  drops exactly the oldest entry and keeps the others in order; a new store of capacity
  100 (1000 when the argument is not positive) holds, after the appends of entries
  1 to 150, exactly the entries 51 to 150 in order.
\<close>

theorem ring_buffer_capacity:
  "(0 < maxLogs m \<and> int (length (logs m)) \<le> maxLogs m \<longrightarrow>
      (\<exists>m1. AddPingLogs m xs = Inr m1 \<and> maxLogs m1 = maxLogs m
         \<and> int (length (logs m1)) \<le> maxLogs m
         \<and> logs m1 = drop (length (logs m) + length xs - nat (maxLogs m))
                        (logs m @ stamped (logCounter m) xs)))
   \<and> (0 < maxLogs m \<and> int (length (logs m)) = maxLogs m \<longrightarrow>
      (\<exists>m1. AddPingLog m x = Inr m1 \<and> maxLogs m1 = maxLogs m
         \<and> logs m1 = tl (logs m) @ [x\<lparr>PingLog.ID := logCounter m + 1\<rparr>]))
   \<and> (\<exists>m1. AddPingLogs (NewMemoryStorage c) xs = Inr m1
         \<and> maxLogs m1 = (if c \<le> 0 then 1000 else c)
         \<and> int (length (logs m1)) \<le> maxLogs m1
         \<and> logs m1 = drop (length xs - nat (maxLogs m1)) (stamped 0 xs))
   \<and> (\<exists>m1. AddPingLogs (NewMemoryStorage 100) (map e [1..<151]) = Inr m1
         \<and> length (logs m1) = 100
         \<and> logs m1 = stamped 50 (map e [51..<151]))"
proof (intro conjI impI)
  assume wf: "0 < maxLogs m \<and> int (length (logs m)) \<le> maxLogs m"
  let ?m1 = "\<lparr> logs = drop (length (logs m) + length xs - nat (maxLogs m))
                   (logs m @ stamped (logCounter m) xs),
           maxLogs = maxLogs m, logCounter = logCounter m + of_nat (length xs) \<rparr>"
  have "AddPingLogs m xs = Inr ?m1" using wf by (intro AddPingLogs_run) auto
  moreover have "int (length (logs ?m1)) \<le> maxLogs m"
    using wf by (simp del: drop_append) linarith
  ultimately show "\<exists>m1. AddPingLogs m xs = Inr m1 \<and> maxLogs m1 = maxLogs m
         \<and> int (length (logs m1)) \<le> maxLogs m
         \<and> logs m1 = drop (length (logs m) + length xs - nat (maxLogs m))
                        (logs m @ stamped (logCounter m) xs)"
    by (intro exI[of _ ?m1]) (simp del: drop_append)
next
  assume full: "0 < maxLogs m \<and> int (length (logs m)) = maxLogs m"
  then obtain oldest rest where "logs m = oldest # rest" by (cases "logs m") auto
  then show "\<exists>m1. AddPingLog m x = Inr m1 \<and> maxLogs m1 = maxLogs m
         \<and> logs m1 = tl (logs m) @ [x\<lparr>PingLog.ID := logCounter m + 1\<rparr>]"
    using full by (simp add: AddPingLog_def Let_def)
next
  let ?m = "NewMemoryStorage c"
  let ?m1 = "\<lparr> logs = drop (length (logs ?m) + length xs - nat (maxLogs ?m))
                   (logs ?m @ stamped (logCounter ?m) xs),
           maxLogs = maxLogs ?m, logCounter = logCounter ?m + of_nat (length xs) \<rparr>"
  have "AddPingLogs ?m xs = Inr ?m1"
    using NewMemoryStorage_wf[of c] by (intro AddPingLogs_run) auto
  moreover have "maxLogs ?m = (if c \<le> 0 then 1000 else c)"
    by (simp add: NewMemoryStorage_def Let_def)
  moreover have "int (length (logs ?m1)) \<le> maxLogs ?m"
    using NewMemoryStorage_wf[of c] by (simp del: drop_append) linarith
  ultimately show "\<exists>m1. AddPingLogs ?m xs = Inr m1
         \<and> maxLogs m1 = (if c \<le> 0 then 1000 else c)
         \<and> int (length (logs m1)) \<le> maxLogs m1
         \<and> logs m1 = drop (length xs - nat (maxLogs m1)) (stamped 0 xs)"
    using NewMemoryStorage_wf[of c] by (intro exI[of _ ?m1]) simp
next
  let ?m = "NewMemoryStorage 100"
  let ?xs = "map e [1..<151]"
  let ?m1 = "\<lparr> logs = drop (length (logs ?m) + length ?xs - nat (maxLogs ?m))
                   (logs ?m @ stamped (logCounter ?m) ?xs),
           maxLogs = maxLogs ?m, logCounter = logCounter ?m + of_nat (length ?xs) \<rparr>"
  have run: "AddPingLogs ?m ?xs = Inr ?m1"
    using NewMemoryStorage_wf[of 100] by (intro AddPingLogs_run) auto
  have m: "maxLogs ?m = 100" "logs ?m = []" "logCounter ?m = 0"
    by (simp_all add: NewMemoryStorage_def Let_def)
  have "logs ?m1 = drop 50 (stamped 0 ?xs)" by (simp add: m)
  also have "\<dots> = stamped 50 (drop 50 ?xs)" by (simp add: stamped_drop)
  also have "drop 50 ?xs = map e [51..<151]" by (simp add: drop_map)
  finally have l: "logs ?m1 = stamped 50 (map e [51..<151])" .
  then have "length (logs ?m1) = 100" by (simp only: length_stamped length_map length_upt)
  then show "\<exists>m1. AddPingLogs ?m ?xs = Inr m1 \<and> length (logs m1) = 100
         \<and> logs m1 = stamped 50 (map e [51..<151])"
    using run l by (intro exI[of _ ?m1]) simp
qed

theorem ring_buffer_capacity_witness:
  "(\<exists>m1. AddPingLogs small_store [sample 3, sample 4] = Inr m1 \<and> maxLogs m1 = 2
         \<and> int (length (logs m1)) \<le> 2
         \<and> logs m1 = [(sample 3)\<lparr>PingLog.ID := 3\<rparr>, (sample 4)\<lparr>PingLog.ID := 4\<rparr>])
   \<and> (\<exists>m1. AddPingLog small_store (sample 3) = Inr m1 \<and> maxLogs m1 = 2
         \<and> logs m1 = [(sample 2)\<lparr>PingLog.ID := 2\<rparr>, (sample 3)\<lparr>PingLog.ID := 3\<rparr>])"
proof -
  have wf: "0 < maxLogs small_store \<and> int (length (logs small_store)) \<le> maxLogs small_store"
    by (simp add: small_store_def)
  have full: "0 < maxLogs small_store \<and> int (length (logs small_store)) = maxLogs small_store"
    by (simp add: small_store_def)
  have "\<exists>m1. AddPingLogs small_store [sample 3, sample 4] = Inr m1
         \<and> maxLogs m1 = maxLogs small_store
         \<and> int (length (logs m1)) \<le> maxLogs small_store
         \<and> logs m1 = drop (length (logs small_store) + length [sample 3, sample 4]
                              - nat (maxLogs small_store))
                        (logs small_store @ stamped (logCounter small_store) [sample 3, sample 4])"
    using wf ring_buffer_capacity[where m = small_store and xs = "[sample 3, sample 4]"]
    by blast
  then have 1: "\<exists>m1. AddPingLogs small_store [sample 3, sample 4] = Inr m1 \<and> maxLogs m1 = 2
         \<and> int (length (logs m1)) \<le> 2
         \<and> logs m1 = [(sample 3)\<lparr>PingLog.ID := 3\<rparr>, (sample 4)\<lparr>PingLog.ID := 4\<rparr>]"
    by (simp add: small_store_def)
  have "\<exists>m1. AddPingLog small_store (sample 3) = Inr m1 \<and> maxLogs m1 = maxLogs small_store
         \<and> logs m1 = tl (logs small_store) @ [(sample 3)\<lparr>PingLog.ID := logCounter small_store + 1\<rparr>]"
    using full ring_buffer_capacity[where m = small_store and x = "sample 3"]
    by blast
  then have 2: "\<exists>m1. AddPingLog small_store (sample 3) = Inr m1 \<and> maxLogs m1 = 2
         \<and> logs m1 = [(sample 2)\<lparr>PingLog.ID := 2\<rparr>, (sample 3)\<lparr>PingLog.ID := 3\<rparr>]"
    by (simp add: small_store_def)
  from 1 2 show ?thesis by blast
qed

lemma filter_loop_eq:
  assumes "limit > 0 \<longrightarrow> int (length filtered) < limit"
  shows "filter_loop siteID success limit pending filtered =
     filtered @ (if limit > 0
                 then take (nat limit - length filtered) (filter (matches siteID success) pending)
                 else filter (matches siteID success) pending)"
  using assms
proof (induction pending arbitrary: filtered)
  case Nil
  then show ?case by simp
next
  case (Cons log0 pending)
  show ?case
  proof (cases "matches siteID success log0")
    case False
    then have "filter_loop siteID success limit (log0 # pending) filtered
        = filter_loop siteID success limit pending filtered"
      by (auto simp: matches_def split: option.splits)
    then show ?thesis using Cons False by simp
  next
    case True
    then have skip: "\<not> (siteID \<noteq> [] \<and> PingLog.SiteID log0 \<noteq> siteID)"
        "\<not> (case success of None \<Rightarrow> False | Some b \<Rightarrow> PingLog.Success log0 \<noteq> b)"
      by (auto simp: matches_def split: option.splits)
    show ?thesis
    proof (cases "limit > 0 \<and> int (length (filtered @ [log0])) \<ge> limit")
      case full: True
      then have "nat limit - length filtered = 1" using Cons.prems by auto
      moreover have "filter_loop siteID success limit (log0 # pending) filtered = filtered @ [log0]"
        using skip full by (auto simp add: Let_def)
      ultimately show ?thesis using True full by simp
    next
      case more: False
      then have pre: "limit > 0 \<longrightarrow> int (length (filtered @ [log0])) < limit" by auto
      have "filter_loop siteID success limit (log0 # pending) filtered
          = filter_loop siteID success limit pending (filtered @ [log0])"
        using skip more by (auto simp add: Let_def)
      also have "\<dots> = (filtered @ [log0]) @ (if limit > 0
                 then take (nat limit - length (filtered @ [log0]))
                        (filter (matches siteID success) pending)
                 else filter (matches siteID success) pending)"
        using pre by (rule Cons.IH)
      also have "\<dots> = filtered @ (if limit > 0
                 then take (nat limit - length filtered)
                        (filter (matches siteID success) (log0 # pending))
                 else filter (matches siteID success) (log0 # pending))"
      proof (cases "limit > 0")
        case True
        then have "nat limit - length filtered = Suc (nat limit - length (filtered @ [log0]))"
          using pre by auto
        then show ?thesis using \<open>matches siteID success log0\<close> True by simp
      next
        case False
        then show ?thesis using \<open>matches siteID success log0\<close> by simp
      qed
      finally show ?thesis .
    qed
  qed
qed

lemma GetFilteredLogs_eq:
  "GetFilteredLogs m siteID success limit =
     (if limit > 0 then take (nat limit) (filter (matches siteID success) (rev (logs m)))
      else filter (matches siteID success) (rev (logs m)))"
  by (simp add: GetFilteredLogs_def filter_loop_eq)








subsection \<open>SQLite log store\<close>











subsection \<open>Append and query\<close>

lemma AddPingLog_last:
  assumes "0 < maxLogs m"
  shows "\<exists>m1 kept. AddPingLog m x = Inr m1
     \<and> logs m1 = kept @ [x\<lparr>PingLog.ID := logCounter m + 1\<rparr>]"
proof (cases "int (length (logs m)) \<ge> maxLogs m")
  case True
  then obtain oldest rest where "logs m = oldest # rest"
    using assms by (cases "logs m") auto
  then show ?thesis using True by (simp add: AddPingLog_def Let_def)
next
  case False
  then show ?thesis by (simp add: AddPingLog_def Let_def)
qed

text \<open>
  Claim C5. Round trip: for every store with a positive capacity and every entry,
  appending the entry and then querying with no filter and a limit of at least 1 returns
  a list whose first record is the appended entry with the identifier the store gave it:
  its success flag, timestamp and latency are those of the appended entry.
\<close>

theorem append_query_round_trip:
  "0 < maxLogs m \<and> 1 \<le> limit \<longrightarrow>
     (\<exists>m1 first rest. AddPingLog m x = Inr m1
        \<and> GetFilteredLogs m1 [] None limit = first # rest
        \<and> first = x\<lparr>PingLog.ID := logCounter m + 1\<rparr>
        \<and> PingLog.Success first = PingLog.Success x
        \<and> PingLog.Timestamp first = PingLog.Timestamp x
        \<and> PingLog.Latency first = PingLog.Latency x)"
proof
  assume a: "0 < maxLogs m \<and> 1 \<le> limit"
  then obtain m1 kept where m1: "AddPingLog m x = Inr m1"
      "logs m1 = kept @ [x\<lparr>PingLog.ID := logCounter m + 1\<rparr>]"
    using AddPingLog_last[of m x] by blast
  have all: "matches [] None y" for y
    by (simp add: matches_def)
  obtain k where k: "nat limit = Suc k" using a by (cases "nat limit") auto
  have "GetFilteredLogs m1 [] None limit
      = x\<lparr>PingLog.ID := logCounter m + 1\<rparr> # take k (rev kept)"
    using a by (simp add: GetFilteredLogs_eq all m1 k)
  then show "\<exists>m1 first rest. AddPingLog m x = Inr m1
        \<and> GetFilteredLogs m1 [] None limit = first # rest
        \<and> first = x\<lparr>PingLog.ID := logCounter m + 1\<rparr>
        \<and> PingLog.Success first = PingLog.Success x
        \<and> PingLog.Timestamp first = PingLog.Timestamp x
        \<and> PingLog.Latency first = PingLog.Latency x"
    using m1 by simp
qed

theorem append_query_round_trip_witness:
  "0 < maxLogs small_store \<and> (1 :: int) \<le> 1
   \<and> (\<exists>m1 first rest. AddPingLog small_store (sample 3) = Inr m1
        \<and> GetFilteredLogs m1 [] None 1 = first # rest
        \<and> first = (sample 3)\<lparr>PingLog.ID := 3\<rparr>
        \<and> PingLog.Success first = True
        \<and> PingLog.Timestamp first = 3
        \<and> PingLog.Latency first = Some (Finite 12))"
proof -
  have h: "0 < maxLogs small_store \<and> (1 :: int) \<le> 1" by (simp add: small_store_def)
  then obtain m1 first rest where r: "AddPingLog small_store (sample 3) = Inr m1"
      "GetFilteredLogs m1 [] None 1 = first # rest"
      "first = (sample 3)\<lparr>PingLog.ID := logCounter small_store + 1\<rparr>"
      "PingLog.Success first = PingLog.Success (sample 3)"
      "PingLog.Timestamp first = PingLog.Timestamp (sample 3)"
      "PingLog.Latency first = PingLog.Latency (sample 3)"
    using append_query_round_trip[of small_store 1 "sample 3"] by blast
  have "first = (sample 3)\<lparr>PingLog.ID := 3\<rparr>" using r(3) by (simp add: small_store_def)
  moreover have "PingLog.Success first = True" using r(4) by (simp add: sample_def)
  moreover have "PingLog.Timestamp first = 3" using r(5) by (simp add: sample_def)
  moreover have "PingLog.Latency first = Some (Finite 12)" using r(6) by (simp add: sample_def)
  ultimately show ?thesis using h r(1,2) by blast
qed

subsection \<open>Live status\<close>

lemma Sites_UpdateSiteStatus [simp]: "Sites (UpdateSiteStatus app result) = Sites app"
  by (simp add: UpdateSiteStatus_def Let_def split: option.splits)

lemma UpdateSiteStatus_other:
  "key \<noteq> PingResult.SiteID result \<Longrightarrow>
     AppState.SiteStatus (UpdateSiteStatus app result) key = AppState.SiteStatus app key"
  by (simp add: UpdateSiteStatus_def Let_def split: option.splits)

lemma UpdateSiteStatus_missing:
  "AppState.SiteStatus app (PingResult.SiteID result) = None \<Longrightarrow> UpdateSiteStatus app result = app"
  by (simp add: UpdateSiteStatus_def)

lemma UpdateSiteStatus_combined:
  assumes "AppState.SiteStatus app (PingResult.SiteID result) = Some st"
    and "find (\<lambda>s. Site.ID s = PingResult.SiteID result) (Sites app) = Some site"
  shows "\<exists>st1. AppState.SiteStatus (UpdateSiteStatus app result) (PingResult.SiteID result) = Some st1
     \<and> combined_ok site st1"
  using assms by (simp add: UpdateSiteStatus_def Let_def combined_ok_def)

lemma find_distinct:
  assumes "distinct (map f xs)" "x \<in> set xs"
  shows "find (\<lambda>s. f s = f x) xs = Some x"
  using assms by (induction xs) (auto simp: image_iff)

lemma status_ok_UpdateSiteStatus:
  assumes "distinct (map Site.ID (Sites app))" "status_ok app"
  shows "status_ok (UpdateSiteStatus app result)"
  unfolding status_ok_def
proof
  fix site assume site: "site \<in> set (Sites (UpdateSiteStatus app result))"
  then have mem: "site \<in> set (Sites app)" by simp
  show "case AppState.SiteStatus (UpdateSiteStatus app result) (Site.ID site) of
          None \<Rightarrow> True | Some status \<Rightarrow> combined_ok site status"
  proof (cases "Site.ID site = PingResult.SiteID result")
    case False
    then show ?thesis
      using assms(2) mem by (simp add: UpdateSiteStatus_other status_ok_def)
  next
    case True
    show ?thesis
    proof (cases "AppState.SiteStatus app (PingResult.SiteID result)")
      case None
      then show ?thesis using True by (simp add: UpdateSiteStatus_missing)
    next
      case (Some st)
      have "find (\<lambda>s. Site.ID s = PingResult.SiteID result) (Sites app) = Some site"
        using find_distinct[OF assms(1) mem] True by simp
      then show ?thesis
        using UpdateSiteStatus_combined[OF Some] True by auto
    qed
  qed
qed

lemma Sites_UpdateAll [simp]: "Sites (UpdateAll app results) = Sites app"
  by (induction results arbitrary: app) auto

lemma status_ok_UpdateAll:
  assumes "distinct (map Site.ID (Sites app))" "status_ok app"
  shows "status_ok (UpdateAll app results)"
  using assms
proof (induction results arbitrary: app)
  case Nil
  then show ?case by simp
next
  case (Cons result results)
  have "status_ok (UpdateSiteStatus app result)"
    using Cons.prems by (rule status_ok_UpdateSiteStatus)
  moreover have "distinct (map Site.ID (Sites (UpdateSiteStatus app result)))"
    using Cons.prems by simp
  ultimately show ?case using Cons.IH by simp
qed

lemma init_loop_other:
  "key \<notin> Site.ID ` set sites \<Longrightarrow> init_loop clock i sites m key = m key"
  by (induction sites arbitrary: i m) auto

lemma init_loop_offline:
  assumes "key \<in> Site.ID ` set sites"
  shows "\<exists>st. init_loop clock i sites m key = Some st
     \<and> \<not> PrimaryOnline st \<and> \<not> SecondaryOnline st \<and> \<not> BothOnline st"
  using assms
proof (induction sites arbitrary: i m)
  case Nil
  then show ?case by simp
next
  case (Cons s sites)
  show ?case
  proof (cases "key \<in> Site.ID ` set sites")
    case True
    then show ?thesis using Cons.IH by simp
  next
    case False
    then have "Site.ID s = key" using Cons.prems by auto
    then show ?thesis using False by (auto simp add: init_loop_other)
  qed
qed

lemma status_ok_InitializeSiteStatus: "status_ok (InitializeSiteStatus app clock)"
  unfolding status_ok_def
proof
  fix site assume "site \<in> set (Sites (InitializeSiteStatus app clock))"
  then have "site \<in> set (Sites app)" by (simp add: InitializeSiteStatus_def)
  then obtain st where "init_loop clock 0 (Sites app) (AppState.SiteStatus app) (Site.ID site) = Some st"
      "\<not> PrimaryOnline st" "\<not> SecondaryOnline st" "\<not> BothOnline st"
    using init_loop_offline[of "Site.ID site" "Sites app"] by blast
  then show "case AppState.SiteStatus (InitializeSiteStatus app clock) (Site.ID site) of
          None \<Rightarrow> True | Some status \<Rightarrow> combined_ok site status"
    by (simp add: InitializeSiteStatus_def combined_ok_def)
qed

text \<open>
  Claim C2. After \<open>UpdateSiteStatus\<close> has processed a result for a site that has a
  status entry, the combined flag of that entry is \<open>PrimaryOnline \<and> SecondaryOnline\<close>
  when the site (the one the site list gives for the identifier) is dual-line and
  \<open>PrimaryOnline\<close> when it is single-line. With identifiers that are unique in the site
  list, the relation holds for every site of the list at once: each update preserves it,
  and it holds after start-up and after every sequence of results processed from there.
\<close>

theorem combined_flag_invariant:
  "(AppState.SiteStatus app (PingResult.SiteID result) = Some st
      \<and> find (\<lambda>s. Site.ID s = PingResult.SiteID result) (Sites app) = Some site \<longrightarrow>
        (\<exists>st1. AppState.SiteStatus (UpdateSiteStatus app result) (PingResult.SiteID result) = Some st1
           \<and> BothOnline st1 = (if IsDualLine site then PrimaryOnline st1 \<and> SecondaryOnline st1
                                else PrimaryOnline st1)))
   \<and> (distinct (map Site.ID (Sites app)) \<and> status_ok app \<longrightarrow>
        status_ok (UpdateSiteStatus app result))
   \<and> (distinct (map Site.ID (Sites app)) \<longrightarrow>
        status_ok (UpdateAll (InitializeSiteStatus app clock) results))"
proof (intro conjI impI)
  assume "AppState.SiteStatus app (PingResult.SiteID result) = Some st
      \<and> find (\<lambda>s. Site.ID s = PingResult.SiteID result) (Sites app) = Some site"
  then show "\<exists>st1. AppState.SiteStatus (UpdateSiteStatus app result) (PingResult.SiteID result) = Some st1
           \<and> BothOnline st1 = (if IsDualLine site then PrimaryOnline st1 \<and> SecondaryOnline st1
                                else PrimaryOnline st1)"
    using UpdateSiteStatus_combined[of app result st site] by (auto simp: combined_ok_def)
next
  assume "distinct (map Site.ID (Sites app)) \<and> status_ok app"
  then show "status_ok (UpdateSiteStatus app result)"
    using status_ok_UpdateSiteStatus by blast
next
  assume "distinct (map Site.ID (Sites app))"
  then have "distinct (map Site.ID (Sites (InitializeSiteStatus app clock)))"
    by (simp add: InitializeSiteStatus_def)
  then show "status_ok (UpdateAll (InitializeSiteStatus app clock) results)"
    using status_ok_InitializeSiteStatus by (rule status_ok_UpdateAll)
qed


theorem combined_flag_invariant_witness:
  "(\<exists>st1. AppState.SiteStatus (UpdateSiteStatus started (result_up ''s1'' ''primary'')) ''s1'' = Some st1
       \<and> PrimaryOnline st1 \<and> \<not> SecondaryOnline st1 \<and> \<not> BothOnline st1)
   \<and> (\<exists>st1. AppState.SiteStatus (UpdateSiteStatus started (result_up ''s2'' ''primary'')) ''s2'' = Some st1
       \<and> PrimaryOnline st1 \<and> BothOnline st1)
   \<and> status_ok (UpdateSiteStatus started (result_up ''s1'' ''primary''))
   \<and> status_ok (UpdateAll (InitializeSiteStatus started (\<lambda>i. 1000))
        [result_up ''s1'' ''primary'', result_up ''s2'' ''primary''])"
proof -
  have d: "distinct (map Site.ID (Sites started))"
    by (simp add: started_def site_dual_def site_single_def)
  have ok: "status_ok started"
    by (simp add: status_ok_def started_def site_dual_def site_single_def combined_ok_def
        offline_def IsDualLine_def)
  have h1: "AppState.SiteStatus started (PingResult.SiteID (result_up ''s1'' ''primary''))
        = Some (offline ''s1'')
      \<and> find (\<lambda>s. Site.ID s = PingResult.SiteID (result_up ''s1'' ''primary'')) (Sites started)
        = Some site_dual"
    by (simp add: started_def result_up_def site_dual_def site_single_def)
  have h2: "AppState.SiteStatus started (PingResult.SiteID (result_up ''s2'' ''primary''))
        = Some (offline ''s2'')
      \<and> find (\<lambda>s. Site.ID s = PingResult.SiteID (result_up ''s2'' ''primary'')) (Sites started)
        = Some site_single"
    by (simp add: started_def result_up_def site_dual_def site_single_def)
  obtain st1 where st1:
      "AppState.SiteStatus (UpdateSiteStatus started (result_up ''s1'' ''primary''))
         (PingResult.SiteID (result_up ''s1'' ''primary'')) = Some st1"
      "BothOnline st1 = (if IsDualLine site_dual then PrimaryOnline st1 \<and> SecondaryOnline st1
                         else PrimaryOnline st1)"
    using h1 combined_flag_invariant[of started "result_up ''s1'' ''primary''" "offline ''s1''"
        site_dual]
    by blast
  have e1: "AppState.SiteStatus (UpdateSiteStatus started (result_up ''s1'' ''primary'')) ''s1''
      = Some ((offline ''s1'')\<lparr>PrimaryOnline := True, PrimaryLatency := Some (Finite 12),
                 PrimaryError := [], BothOnline := False, LastCheck := 2000\<rparr>)"
    by (simp add: UpdateSiteStatus_def started_def result_up_def site_dual_def site_single_def
        offline_def IsDualLine_def Let_def)
  have 1: "\<exists>st1. AppState.SiteStatus (UpdateSiteStatus started (result_up ''s1'' ''primary'')) ''s1'' = Some st1
       \<and> PrimaryOnline st1 \<and> \<not> SecondaryOnline st1 \<and> \<not> BothOnline st1"
    using st1 e1 by (simp add: result_up_def offline_def)
  obtain st2 where st2:
      "AppState.SiteStatus (UpdateSiteStatus started (result_up ''s2'' ''primary''))
         (PingResult.SiteID (result_up ''s2'' ''primary'')) = Some st2"
      "BothOnline st2 = (if IsDualLine site_single then PrimaryOnline st2 \<and> SecondaryOnline st2
                         else PrimaryOnline st2)"
    using h2 combined_flag_invariant[of started "result_up ''s2'' ''primary''" "offline ''s2''"
        site_single]
    by blast
  have e2: "AppState.SiteStatus (UpdateSiteStatus started (result_up ''s2'' ''primary'')) ''s2''
      = Some ((offline ''s2'')\<lparr>PrimaryOnline := True, PrimaryLatency := Some (Finite 12),
                 PrimaryError := [], BothOnline := True, LastCheck := 2000\<rparr>)"
    by (simp add: UpdateSiteStatus_def started_def result_up_def site_dual_def site_single_def
        offline_def IsDualLine_def Let_def)
  have 2: "\<exists>st1. AppState.SiteStatus (UpdateSiteStatus started (result_up ''s2'' ''primary'')) ''s2'' = Some st1
       \<and> PrimaryOnline st1 \<and> BothOnline st1"
    using st2 e2 by (simp add: result_up_def offline_def)
  have 3: "status_ok (UpdateSiteStatus started (result_up ''s1'' ''primary''))"
    using d ok combined_flag_invariant[of started "result_up ''s1'' ''primary''"] by blast
  have 4: "status_ok (UpdateAll (InitializeSiteStatus started (\<lambda>i. 1000))
        [result_up ''s1'' ''primary'', result_up ''s2'' ''primary''])"
    using d combined_flag_invariant[of started _ _ _ "\<lambda>i. 1000"
        "[result_up ''s1'' ''primary'', result_up ''s2'' ''primary'']"] by blast
  from 1 2 3 4 show ?thesis by blast
qed

text \<open>
  Claim C10. The frame of a status update. When the result's site has no status entry,
  the state is left as it was: no entry is made. Otherwise the state changes in the
  entry of that site only, and there a result for the primary line changes at most the
  primary online flag, latency and error text, the combined flag and the time of the
  last check; a result for the secondary line the same with the secondary fields; a
  result for any other line type at most the combined flag and the time of the last
  check. The site list, the storage and the counter are not touched, the entries of all
  other sites are the same, and the set of sites with an entry is the same.
\<close>

theorem status_update_frame:
  "(AppState.SiteStatus app (PingResult.SiteID r) = None \<longrightarrow> UpdateSiteStatus app r = app)
   \<and> (AppState.SiteStatus app (PingResult.SiteID r) = Some st \<and> LineType r = ''primary'' \<longrightarrow>
        (\<exists>on lat err both.
           UpdateSiteStatus app r =
             app\<lparr>AppState.SiteStatus := (AppState.SiteStatus app)(PingResult.SiteID r \<mapsto>
                   st\<lparr>PrimaryOnline := on, PrimaryLatency := lat, PrimaryError := err,
                      BothOnline := both, LastCheck := PingResult.Timestamp r\<rparr>)\<rparr>))
   \<and> (AppState.SiteStatus app (PingResult.SiteID r) = Some st \<and> LineType r = ''secondary'' \<longrightarrow>
        (\<exists>on lat err both.
           UpdateSiteStatus app r =
             app\<lparr>AppState.SiteStatus := (AppState.SiteStatus app)(PingResult.SiteID r \<mapsto>
                   st\<lparr>SecondaryOnline := on, SecondaryLatency := lat, SecondaryError := err,
                      BothOnline := both, LastCheck := PingResult.Timestamp r\<rparr>)\<rparr>))
   \<and> (AppState.SiteStatus app (PingResult.SiteID r) = Some st \<and> LineType r \<noteq> ''primary''
        \<and> LineType r \<noteq> ''secondary'' \<longrightarrow>
        (\<exists>both.
           UpdateSiteStatus app r =
             app\<lparr>AppState.SiteStatus := (AppState.SiteStatus app)(PingResult.SiteID r \<mapsto>
                   st\<lparr>BothOnline := both, LastCheck := PingResult.Timestamp r\<rparr>)\<rparr>))
   \<and> (\<forall>key. key \<noteq> PingResult.SiteID r \<longrightarrow>
        AppState.SiteStatus (UpdateSiteStatus app r) key = AppState.SiteStatus app key)
   \<and> dom (AppState.SiteStatus (UpdateSiteStatus app r)) = dom (AppState.SiteStatus app)"
proof (intro conjI impI allI)
  assume "AppState.SiteStatus app (PingResult.SiteID r) = None"
  then show "UpdateSiteStatus app r = app" by (simp add: UpdateSiteStatus_def)
next
  let ?both = "\<lambda>st1. case find (\<lambda>s. Site.ID s = PingResult.SiteID r) (Sites app) of
                   Some site \<Rightarrow> if IsDualLine site then PrimaryOnline st1 \<and> SecondaryOnline st1
                                else PrimaryOnline st1
                 | None \<Rightarrow> BothOnline st1"
  assume a: "AppState.SiteStatus app (PingResult.SiteID r) = Some st \<and> LineType r = ''primary''"
  let ?on = "PingResult.Success r"
  let ?lat = "if PingResult.Success r then PingResult.Latency r else None"
  let ?err = "if PingResult.Success r then [] else PingResult.Error r"
  have "UpdateSiteStatus app r =
             app\<lparr>AppState.SiteStatus := (AppState.SiteStatus app)(PingResult.SiteID r \<mapsto>
                   st\<lparr>PrimaryOnline := ?on, PrimaryLatency := ?lat, PrimaryError := ?err,
                      BothOnline := ?both (st\<lparr>PrimaryOnline := ?on\<rparr>),
                      LastCheck := PingResult.Timestamp r\<rparr>)\<rparr>"
    using a by (simp add: UpdateSiteStatus_def Let_def split: option.splits)
  then show "\<exists>on lat err both.
           UpdateSiteStatus app r =
             app\<lparr>AppState.SiteStatus := (AppState.SiteStatus app)(PingResult.SiteID r \<mapsto>
                   st\<lparr>PrimaryOnline := on, PrimaryLatency := lat, PrimaryError := err,
                      BothOnline := both, LastCheck := PingResult.Timestamp r\<rparr>)\<rparr>"
    by blast
next
  let ?both = "\<lambda>st1. case find (\<lambda>s. Site.ID s = PingResult.SiteID r) (Sites app) of
                   Some site \<Rightarrow> if IsDualLine site then PrimaryOnline st1 \<and> SecondaryOnline st1
                                else PrimaryOnline st1
                 | None \<Rightarrow> BothOnline st1"
  assume a: "AppState.SiteStatus app (PingResult.SiteID r) = Some st \<and> LineType r = ''secondary''"
  let ?on = "PingResult.Success r"
  let ?lat = "if PingResult.Success r then PingResult.Latency r else None"
  let ?err = "if PingResult.Success r then [] else PingResult.Error r"
  have "UpdateSiteStatus app r =
             app\<lparr>AppState.SiteStatus := (AppState.SiteStatus app)(PingResult.SiteID r \<mapsto>
                   st\<lparr>SecondaryOnline := ?on, SecondaryLatency := ?lat, SecondaryError := ?err,
                      BothOnline := ?both (st\<lparr>SecondaryOnline := ?on\<rparr>),
                      LastCheck := PingResult.Timestamp r\<rparr>)\<rparr>"
    using a by (simp add: UpdateSiteStatus_def Let_def split: option.splits)
  then show "\<exists>on lat err both.
           UpdateSiteStatus app r =
             app\<lparr>AppState.SiteStatus := (AppState.SiteStatus app)(PingResult.SiteID r \<mapsto>
                   st\<lparr>SecondaryOnline := on, SecondaryLatency := lat, SecondaryError := err,
                      BothOnline := both, LastCheck := PingResult.Timestamp r\<rparr>)\<rparr>"
    by blast
next
  let ?both = "\<lambda>st1. case find (\<lambda>s. Site.ID s = PingResult.SiteID r) (Sites app) of
                   Some site \<Rightarrow> if IsDualLine site then PrimaryOnline st1 \<and> SecondaryOnline st1
                                else PrimaryOnline st1
                 | None \<Rightarrow> BothOnline st1"
  assume a: "AppState.SiteStatus app (PingResult.SiteID r) = Some st \<and> LineType r \<noteq> ''primary''
        \<and> LineType r \<noteq> ''secondary''"
  have "UpdateSiteStatus app r =
             app\<lparr>AppState.SiteStatus := (AppState.SiteStatus app)(PingResult.SiteID r \<mapsto>
                   st\<lparr>BothOnline := ?both st, LastCheck := PingResult.Timestamp r\<rparr>)\<rparr>"
    using a by (simp add: UpdateSiteStatus_def Let_def split: option.splits)
  then show "\<exists>both.
           UpdateSiteStatus app r =
             app\<lparr>AppState.SiteStatus := (AppState.SiteStatus app)(PingResult.SiteID r \<mapsto>
                   st\<lparr>BothOnline := both, LastCheck := PingResult.Timestamp r\<rparr>)\<rparr>"
    by blast
next
  fix key assume "key \<noteq> PingResult.SiteID r"
  then show "AppState.SiteStatus (UpdateSiteStatus app r) key = AppState.SiteStatus app key"
    by (rule UpdateSiteStatus_other)
next
  show "dom (AppState.SiteStatus (UpdateSiteStatus app r)) = dom (AppState.SiteStatus app)"
    by (auto simp add: UpdateSiteStatus_def Let_def split: option.splits)
qed


theorem status_update_frame_witness:
  "UpdateSiteStatus started (result_up ''s9'' ''primary'') = started
   \<and> (\<exists>on lat err both.
         UpdateSiteStatus started (result_up ''s1'' ''primary'') =
           started\<lparr>AppState.SiteStatus := (AppState.SiteStatus started)(''s1'' \<mapsto>
              (offline ''s1'')\<lparr>PrimaryOnline := on, PrimaryLatency := lat, PrimaryError := err,
                 BothOnline := both, LastCheck := 2000\<rparr>)\<rparr>)
   \<and> (\<exists>on lat err both.
         UpdateSiteStatus started (result_up ''s1'' ''secondary'') =
           started\<lparr>AppState.SiteStatus := (AppState.SiteStatus started)(''s1'' \<mapsto>
              (offline ''s1'')\<lparr>SecondaryOnline := on, SecondaryLatency := lat, SecondaryError := err,
                 BothOnline := both, LastCheck := 2000\<rparr>)\<rparr>)
   \<and> (\<exists>both.
         UpdateSiteStatus started (result_up ''s1'' ''backup'') =
           started\<lparr>AppState.SiteStatus := (AppState.SiteStatus started)(''s1'' \<mapsto>
              (offline ''s1'')\<lparr>BothOnline := both, LastCheck := 2000\<rparr>)\<rparr>)
   \<and> AppState.SiteStatus (UpdateSiteStatus started (result_up ''s1'' ''primary'')) ''s2''
        = Some (offline ''s2'')"
proof -
  have none: "AppState.SiteStatus started (PingResult.SiteID (result_up ''s9'' ''primary'')) = None"
    by (simp add: started_def result_up_def)
  have some: "AppState.SiteStatus started (PingResult.SiteID (result_up ''s1'' line))
      = Some (offline ''s1'')" for line
    by (simp add: started_def result_up_def)
  have line: "LineType (result_up ''s1'' l) = l" for l
    by (simp add: result_up_def)
  have sel: "PingResult.SiteID (result_up ''s1'' l) = ''s1''"
      "PingResult.Timestamp (result_up ''s1'' l) = 2000" for l
    by (simp_all add: result_up_def)
  have 1: "UpdateSiteStatus started (result_up ''s9'' ''primary'') = started"
    using none status_update_frame[of started "result_up ''s9'' ''primary''"] by blast
  have st: "AppState.SiteStatus started ''s1'' = Some (offline ''s1'')"
    by (simp add: started_def)
  note primary = status_update_frame[of started "result_up ''s1'' ''primary''" "offline ''s1''",
      unfolded sel, THEN conjunct2, THEN conjunct1]
  note secondary = status_update_frame[of started "result_up ''s1'' ''secondary''" "offline ''s1''",
      unfolded sel, THEN conjunct2, THEN conjunct2, THEN conjunct1]
  note neither = status_update_frame[of started "result_up ''s1'' ''backup''" "offline ''s1''",
      unfolded sel, THEN conjunct2, THEN conjunct2, THEN conjunct2, THEN conjunct1]
  have 2: "\<exists>on lat err both.
         UpdateSiteStatus started (result_up ''s1'' ''primary'') =
           started\<lparr>AppState.SiteStatus := (AppState.SiteStatus started)(''s1'' \<mapsto>
              (offline ''s1'')\<lparr>PrimaryOnline := on, PrimaryLatency := lat, PrimaryError := err,
                 BothOnline := both, LastCheck := 2000\<rparr>)\<rparr>"
    by (rule mp[OF primary]) (simp add: st line)
  have 3: "\<exists>on lat err both.
         UpdateSiteStatus started (result_up ''s1'' ''secondary'') =
           started\<lparr>AppState.SiteStatus := (AppState.SiteStatus started)(''s1'' \<mapsto>
              (offline ''s1'')\<lparr>SecondaryOnline := on, SecondaryLatency := lat, SecondaryError := err,
                 BothOnline := both, LastCheck := 2000\<rparr>)\<rparr>"
    by (rule mp[OF secondary]) (simp add: st line)
  have 4: "\<exists>both.
         UpdateSiteStatus started (result_up ''s1'' ''backup'') =
           started\<lparr>AppState.SiteStatus := (AppState.SiteStatus started)(''s1'' \<mapsto>
              (offline ''s1'')\<lparr>BothOnline := both, LastCheck := 2000\<rparr>)\<rparr>"
    by (rule mp[OF neither]) (simp add: st line)
  have "''s2'' \<noteq> PingResult.SiteID (result_up ''s1'' ''primary'')"
    by (simp add: result_up_def)
  then have "AppState.SiteStatus (UpdateSiteStatus started (result_up ''s1'' ''primary'')) ''s2''
        = AppState.SiteStatus started ''s2''"
    using status_update_frame[of started "result_up ''s1'' ''primary''", THEN conjunct2,
        THEN conjunct2, THEN conjunct2, THEN conjunct2, THEN conjunct1]
    by simp
  then have 5: "AppState.SiteStatus (UpdateSiteStatus started (result_up ''s1'' ''primary'')) ''s2''
        = Some (offline ''s2'')"
    by (simp add: started_def)
  from 1 2 3 4 5 show ?thesis by (intro conjI)
qed

lemma SiteStatus_UpdateSiteStatus_cong:
  assumes "AppState.SiteStatus a = AppState.SiteStatus b" "Sites a = Sites b"
  shows "AppState.SiteStatus (UpdateSiteStatus a r) = AppState.SiteStatus (UpdateSiteStatus b r)"
  using assms by (simp add: UpdateSiteStatus_def Let_def split: option.splits)

lemma AddPingLogToStorage_frame:
  "AppState.SiteStatus (AddPingLogToStorage add app r nm) = AppState.SiteStatus app
   \<and> Sites (AddPingLogToStorage add app r nm) = Sites app
   \<and> AppState.TotalChecks (AddPingLogToStorage add app r nm) = AppState.TotalChecks app"
  by (simp add: AddPingLogToStorage_def Let_def split: prod.splits option.splits)

lemma TotalChecks_UpdateSiteStatus [simp]:
  "AppState.TotalChecks (UpdateSiteStatus app r) = AppState.TotalChecks app"
  by (simp add: UpdateSiteStatus_def Let_def split: option.splits)

lemma HandlePingResult_completes:
  assumes "metrics_panic validLabel r = None"
  shows "\<exists>app1. HandlePingResult validLabel add app r = Inr app1
        \<and> AppState.TotalChecks app1 = AppState.TotalChecks app + 1
        \<and> AppState.SiteStatus app1 = AppState.SiteStatus (UpdateSiteStatus app r)
        \<and> Sites app1 = Sites app"
proof -
  let ?app1 = "app\<lparr>AppState.TotalChecks := AppState.TotalChecks app + 1\<rparr>"
  let ?nm = "case find (\<lambda>site. Site.ID site = PingResult.SiteID r) (Sites ?app1) of
               Some site \<Rightarrow> Name site | None \<Rightarrow> []"
  let ?app2 = "AddPingLogToStorage add ?app1 r ?nm"
  have h: "HandlePingResult validLabel add app r = Inr (UpdateSiteStatus ?app2 r)"
    using assms by (simp add: HandlePingResult_def Let_def)
  have f: "AppState.SiteStatus ?app2 = AppState.SiteStatus app" "Sites ?app2 = Sites app"
      "AppState.TotalChecks ?app2 = AppState.TotalChecks app + 1"
    using AddPingLogToStorage_frame[of add ?app1 r ?nm] by simp_all
  have "AppState.SiteStatus (UpdateSiteStatus ?app2 r) = AppState.SiteStatus (UpdateSiteStatus app r)"
    using f by (intro SiteStatus_UpdateSiteStatus_cong) auto
  then show ?thesis using h f by simp
qed

lemma HandlePingResult_panics:
  "metrics_panic validLabel r = Some p \<Longrightarrow> HandlePingResult validLabel add app r = Inl p"
  by (simp add: HandlePingResult_def Let_def)

text \<open>
  Claim C8. \<open>HandlePingResult\<close> reaches the append exactly when its metrics block does
  not panic: the label values are accepted, no packet count is negative, and the result
  is not a success without latency. Whatever the backend's append returns then, an error
  included, processing completes: the counter of checks is one higher and the status map
  is the one \<open>UpdateSiteStatus\<close> makes of the result. When the metrics block panics,
  processing ends in that panic before the append, whatever the backend. So for every
  result two backends give the same outcome, counter and status map: a failing append
  gives what a successful one gives.
\<close>

theorem persistence_failure_does_not_block:
  "(metrics_panic validLabel r = None \<longrightarrow>
      (\<exists>app1. HandlePingResult validLabel add app r = Inr app1
        \<and> AppState.TotalChecks app1 = AppState.TotalChecks app + 1
        \<and> AppState.SiteStatus app1 = AppState.SiteStatus (UpdateSiteStatus app r)
        \<and> Sites app1 = Sites app))
   \<and> (metrics_panic validLabel r = Some p \<longrightarrow>
        HandlePingResult validLabel add app r = Inl p)
   \<and> map_sum id (\<lambda>a. (AppState.TotalChecks a, AppState.SiteStatus a))
        (HandlePingResult validLabel add app r)
     = map_sum id (\<lambda>a. (AppState.TotalChecks a, AppState.SiteStatus a))
        (HandlePingResult validLabel add2 app r)"
proof (intro conjI impI)
  assume "metrics_panic validLabel r = None"
  then show "\<exists>app1. HandlePingResult validLabel add app r = Inr app1
        \<and> AppState.TotalChecks app1 = AppState.TotalChecks app + 1
        \<and> AppState.SiteStatus app1 = AppState.SiteStatus (UpdateSiteStatus app r)
        \<and> Sites app1 = Sites app"
    by (rule HandlePingResult_completes)
next
  assume "metrics_panic validLabel r = Some p"
  then show "HandlePingResult validLabel add app r = Inl p"
    by (rule HandlePingResult_panics)
next
  show "map_sum id (\<lambda>a. (AppState.TotalChecks a, AppState.SiteStatus a))
        (HandlePingResult validLabel add app r)
     = map_sum id (\<lambda>a. (AppState.TotalChecks a, AppState.SiteStatus a))
        (HandlePingResult validLabel add2 app r)"
  proof (cases "metrics_panic validLabel r")
    case (Some q)
    then show ?thesis by (simp add: HandlePingResult_panics)
  next
    case None
    then show ?thesis
      using HandlePingResult_completes[of validLabel r add app]
        HandlePingResult_completes[of validLabel r add2 app]
      by auto
  qed
qed

lemma seven_bit_labels:
  "seven_bit ''s1''" "seven_bit ''primary''" "seven_bit ''true''" "seven_bit ''false''"
  by (simp_all add: seven_bit_def)

theorem persistence_failure_does_not_block_witness:
  "metrics_panic seven_bit (result_up ''s1'' ''primary'') = None
   \<and> fst (failing_backend small_store (sample 1)) = Some ''database is locked''
   \<and> (\<exists>app1. HandlePingResult seven_bit failing_backend started (result_up ''s1'' ''primary'')
            = Inr app1
        \<and> AppState.TotalChecks app1 = 1
        \<and> AppState.SiteStatus app1 ''s1''
            = Some ((offline ''s1'')\<lparr>PrimaryOnline := True, PrimaryLatency := Some (Finite 12),
                 PrimaryError := [], BothOnline := False, LastCheck := 2000\<rparr>))
   \<and> metrics_panic seven_bit ((result_up ''s1'' ''primary'')\<lparr>PingResult.PacketsSent := - 1\<rparr>)
        = Some CounterDecrease
   \<and> HandlePingResult seven_bit failing_backend started
        ((result_up ''s1'' ''primary'')\<lparr>PingResult.PacketsSent := - 1\<rparr>) = Inl CounterDecrease"
proof -
  note reached = persistence_failure_does_not_block[where validLabel = seven_bit
      and r = "result_up ''s1'' ''primary''" and add = failing_backend and app = started]
  note stopped = persistence_failure_does_not_block[where validLabel = seven_bit
      and r = "(result_up ''s1'' ''primary'')\<lparr>PingResult.PacketsSent := - 1\<rparr>"
      and p = CounterDecrease and add = failing_backend and app = started]
  have h: "metrics_panic seven_bit (result_up ''s1'' ''primary'') = None"
    by (simp add: metrics_panic_def result_up_def seven_bit_labels word_sless_alt)
  have n: "metrics_panic seven_bit ((result_up ''s1'' ''primary'')\<lparr>PingResult.PacketsSent := - 1\<rparr>)
        = Some CounterDecrease"
    by (simp add: metrics_panic_def result_up_def seven_bit_labels word_sless_alt)
  have e1: "AppState.SiteStatus (UpdateSiteStatus started (result_up ''s1'' ''primary'')) ''s1''
      = Some ((offline ''s1'')\<lparr>PrimaryOnline := True, PrimaryLatency := Some (Finite 12),
                 PrimaryError := [], BothOnline := False, LastCheck := 2000\<rparr>)"
    by (simp add: UpdateSiteStatus_def started_def result_up_def site_dual_def site_single_def
        offline_def IsDualLine_def Let_def)
  obtain app1 where a:
      "HandlePingResult seven_bit failing_backend started (result_up ''s1'' ''primary'') = Inr app1"
      "AppState.TotalChecks app1 = AppState.TotalChecks started + 1"
      "AppState.SiteStatus app1
         = AppState.SiteStatus (UpdateSiteStatus started (result_up ''s1'' ''primary''))"
    using mp[OF reached[THEN conjunct1] h] by blast
  have t: "AppState.TotalChecks app1 = 1" using a(2) by (simp add: started_def)
  have st: "AppState.SiteStatus app1 ''s1''
            = Some ((offline ''s1'')\<lparr>PrimaryOnline := True, PrimaryLatency := Some (Finite 12),
                 PrimaryError := [], BothOnline := False, LastCheck := 2000\<rparr>)"
    using a(3) e1 by simp
  have b: "fst (failing_backend small_store (sample 1)) = Some ''database is locked''"
    by (simp add: failing_backend_def)
  have 1: "\<exists>app1. HandlePingResult seven_bit failing_backend started (result_up ''s1'' ''primary'')
            = Inr app1
        \<and> AppState.TotalChecks app1 = 1
        \<and> AppState.SiteStatus app1 ''s1''
            = Some ((offline ''s1'')\<lparr>PrimaryOnline := True, PrimaryLatency := Some (Finite 12),
                 PrimaryError := [], BothOnline := False, LastCheck := 2000\<rparr>)"
    using a(1) t st by blast
  have 2: "HandlePingResult seven_bit failing_backend started
        ((result_up ''s1'' ''primary'')\<lparr>PingResult.PacketsSent := - 1\<rparr>) = Inl CounterDecrease"
    by (rule mp[OF stopped[THEN conjunct2, THEN conjunct1] n])
  from h b 1 n 2 show ?thesis by (intro conjI)
qed

subsection \<open>Statistics\<close>

lemma percentage_zero_total: "percentage a 0 \<noteq> Finite 0"
proof -
  have "f64_div (f64_of_int a) (f64_of_int 0) \<in> {NaN, PosInf, NegInf}"
    by (simp add: f64_of_int_def)
  then have "f64_mul (f64_div (f64_of_int a) (f64_of_int 0)) (Finite 100) \<in> {NaN, PosInf, NegInf}"
    by auto
  then have "roundToDecimalPlaces (f64_mul (f64_div (f64_of_int a) (f64_of_int 0)) (Finite 100))
      UptimePrecision \<in> {NaN, PosInf, NegInf}"
    by (auto simp: roundToDecimalPlaces_def Pow10_def UptimePrecision_def Let_def)
  then show ?thesis by (auto simp: percentage_def)
qed

lemma Latencies_AddLog:
  "Latencies (AddLog ts l) =
     Latencies ts @ (if PingLog.Success l then (case PingLog.Latency l of None \<Rightarrow> [] | Some x \<Rightarrow> [x])
                     else [])"
  by (simp add: AddLog_def Let_def split: option.splits)

lemma TotalChecks_AddLog:
  "TimeframeStats.TotalChecks (AddLog ts l) = TimeframeStats.TotalChecks ts + 1"
  by (simp add: AddLog_def Let_def split: option.splits)

lemma SuccessChecks_AddLog:
  "SuccessChecks (AddLog ts l) = SuccessChecks ts + (if PingLog.Success l then 1 else 0)"
  by (simp add: AddLog_def Let_def split: option.splits)

lemma Latencies_foldl_AddLog:
  assumes "\<forall>l \<in> set ls. \<not> (PingLog.Success l \<and> PingLog.Latency l \<noteq> None)"
  shows "Latencies (foldl AddLog ts ls) = Latencies ts"
  using assms by (induction ls arbitrary: ts) (auto simp: Latencies_AddLog)

text \<open>
  Claim C6. For every aggregate with no checks the uptime percentage is 0, and for every
  aggregate with no latency sample (the samples are taken from successful entries only)
  the mean latency is 0: in both functions the test for the empty case returns before the
  division. The same holds for the aggregate of a history without a successful entry
  that carries a latency, and for the new aggregate. The division that the test keeps
  from running would not give 0: with a total of 0 it gives NaN or an infinity.
\<close>

theorem empty_aggregates_are_zero:
  "(TimeframeStats.TotalChecks ts = 0 \<longrightarrow> GetUptimePercentage ts = Finite 0)
   \<and> (Latencies ts = [] \<longrightarrow> GetMeanLatency ts = Finite 0)
   \<and> ((\<forall>l \<in> set ls. \<not> (PingLog.Success l \<and> PingLog.Latency l \<noteq> None)) \<longrightarrow>
        GetMeanLatency (foldl AddLog NewTimeframeStats ls) = Finite 0)
   \<and> GetUptimePercentage NewTimeframeStats = Finite 0
   \<and> GetMeanLatency NewTimeframeStats = Finite 0
   \<and> percentage a 0 \<noteq> Finite 0"
proof (intro conjI impI)
  assume "TimeframeStats.TotalChecks ts = 0"
  then show "GetUptimePercentage ts = Finite 0" by (simp add: GetUptimePercentage_def)
next
  assume "Latencies ts = []"
  then show "GetMeanLatency ts = Finite 0" by (simp add: GetMeanLatency_def)
next
  assume "\<forall>l \<in> set ls. \<not> (PingLog.Success l \<and> PingLog.Latency l \<noteq> None)"
  then have "Latencies (foldl AddLog NewTimeframeStats ls) = Latencies NewTimeframeStats"
    by (rule Latencies_foldl_AddLog)
  then show "GetMeanLatency (foldl AddLog NewTimeframeStats ls) = Finite 0"
    by (simp add: GetMeanLatency_def NewTimeframeStats_def)
next
  show "GetUptimePercentage NewTimeframeStats = Finite 0"
    by (simp add: GetUptimePercentage_def NewTimeframeStats_def)
  show "GetMeanLatency NewTimeframeStats = Finite 0"
    by (simp add: GetMeanLatency_def NewTimeframeStats_def)
  show "percentage a 0 \<noteq> Finite 0" by (rule percentage_zero_total)
qed

theorem empty_aggregates_are_zero_witness:
  "TimeframeStats.TotalChecks NewTimeframeStats = 0
   \<and> GetUptimePercentage NewTimeframeStats = Finite 0
   \<and> Latencies (AddLog NewTimeframeStats (lost 1)) = []
   \<and> TimeframeStats.TotalChecks (AddLog NewTimeframeStats (lost 1)) = 1
   \<and> GetMeanLatency (AddLog NewTimeframeStats (lost 1)) = Finite 0
   \<and> GetMeanLatency (foldl AddLog NewTimeframeStats [lost 1, lost 2]) = Finite 0"
proof -
  note thm1 = empty_aggregates_are_zero[of NewTimeframeStats "[lost 1, lost 2]"]
  note thm2 = empty_aggregates_are_zero[of "AddLog NewTimeframeStats (lost 1)" "[lost 1, lost 2]"]
  have z: "TimeframeStats.TotalChecks NewTimeframeStats = 0"
    by (simp add: NewTimeframeStats_def)
  have 1: "GetUptimePercentage NewTimeframeStats = Finite 0"
    by (rule mp[OF thm1[THEN conjunct1] z])
  have e: "Latencies (AddLog NewTimeframeStats (lost 1)) = []"
    by (simp add: Latencies_AddLog lost_def NewTimeframeStats_def)
  have t: "TimeframeStats.TotalChecks (AddLog NewTimeframeStats (lost 1)) = 1"
    by (simp add: TotalChecks_AddLog NewTimeframeStats_def)
  have 2: "GetMeanLatency (AddLog NewTimeframeStats (lost 1)) = Finite 0"
    by (rule mp[OF thm2[THEN conjunct2, THEN conjunct1] e])
  have h: "\<forall>l \<in> set [lost 1, lost 2]. \<not> (PingLog.Success l \<and> PingLog.Latency l \<noteq> None)"
    by (simp add: lost_def)
  have 3: "GetMeanLatency (foldl AddLog NewTimeframeStats [lost 1, lost 2]) = Finite 0"
    by (rule mp[OF thm1[THEN conjunct2, THEN conjunct2, THEN conjunct1] h])
  from z 1 e t 2 3 show ?thesis by (intro conjI)
qed

text \<open>
  The single pass of \<open>CalculateSiteStatistics\<close> sees a history as it sees the history
  without the entries that fail the validation.
\<close>

lemma stats_loop_skips_invalid:
  "stats_loop siteID d1 d7 m12 allLogs fr =
     stats_loop siteID d1 d7 m12 (filter (\<lambda>l. validateLogData l = None) allLogs) fr"
  by (induction allLogs arbitrary: fr) (auto simp: Let_def)

lemma round2_whole: "roundToDecimalPlaces (Finite (- 5)) LatencyPrecision = Finite (- 5)"
  by (simp add: roundToDecimalPlaces_def Pow10_def LatencyPrecision_def Let_def)

lemma validate_negative: "validateLogData negative = Some (NegativeLatency (Finite (- 5)) ''s1'')"
  by (simp add: validateLogData_def negative_def sample_def)

lemma validate_silent: "validateLogData silent = None"
  by (simp add: validateLogData_def silent_def sample_def)

text \<open>
  Claim C7, evaluated where the code departs from it. The single pass of
  \<open>CalculateSiteStatistics\<close> rejects the entry with latency -5 and counts nothing
  of it (no check, mean latency 0), but the mean latency of the primary line is
  computed by \<open>GetProviderMeanLatency\<close> from the history as it came from the store and
  is -5, and \<open>generateDistributionChart\<close> counts the entry in its first bucket. A
  successful entry without latency passes the validation and is counted.
\<close>

theorem negative_latency_in_line_mean:
  "validateLogData negative = Some (NegativeLatency (Finite (- 5)) ''s1'')
   \<and> SiteStatistics.TotalChecks (CalculateSiteStatistics started [negative] now month12 ''s1'') = 0
   \<and> AvgLatency (CalculateSiteStatistics started [negative] now month12 ''s1'') = Finite 0
   \<and> MeanLatencyPrimary (CalculateSiteStatistics started [negative] now month12 ''s1'')
        = Finite (- 5)
   \<and> CombinedData (generateDistributionChart [negative] ''s1'' 0)
        = [Finite 1, Finite 0, Finite 0, Finite 0, Finite 0, Finite 0]
   \<and> validateLogData silent = None
   \<and> SiteStatistics.TotalChecks (CalculateSiteStatistics started [silent] now month12 ''s1'') = 1"
proof (intro conjI)
  have site: "PingLog.SiteID negative = ''s1''" by (simp add: negative_def sample_def)
  have skip: "stats_loop ''s1'' d1 d7 m12 [negative] fr = fr" for d1 d7 m12 fr
    using site validate_negative by simp
  show "validateLogData negative = Some (NegativeLatency (Finite (- 5)) ''s1'')"
    by (rule validate_negative)
  show "SiteStatistics.TotalChecks (CalculateSiteStatistics started [negative] now month12 ''s1'') = 0"
    by (simp add: CalculateSiteStatistics_def Let_def skip NewTimeframeStats_def
        del: stats_loop.simps)
  show "AvgLatency (CalculateSiteStatistics started [negative] now month12 ''s1'') = Finite 0"
    by (simp add: CalculateSiteStatistics_def Let_def skip NewTimeframeStats_def
        del: stats_loop.simps)
  have "mean_loop ''primary'' ''s1'' [negative] (Finite 0) 0 = (Finite (- 5), 1)"
    by (simp add: negative_def sample_def)
  then have "GetProviderMeanLatency ts ''primary'' [negative] ''s1'' = Finite (- 5)" for ts
    by (simp add: GetProviderMeanLatency_def f64_of_int_def round2_whole)
  then show "MeanLatencyPrimary (CalculateSiteStatistics started [negative] now month12 ''s1'')
        = Finite (- 5)"
    by (simp add: CalculateSiteStatistics_def Let_def)
  have "distribution_loop ''s1'' 0 [negative] (NewTimeframeStats, NewTimeframeStats, NewTimeframeStats)
      = (AddLog NewTimeframeStats negative, AddLog NewTimeframeStats negative, NewTimeframeStats)"
    by (simp add: negative_def sample_def)
  moreover have "Latencies (AddLog NewTimeframeStats negative) = [Finite (- 5)]"
    by (simp add: Latencies_AddLog NewTimeframeStats_def negative_def sample_def)
  moreover have "bucketIndex (Finite (- 5)) = 0"
    by (simp add: bucketIndex_def f64_le_def LatencyBucket1_def)
  ultimately show "CombinedData (generateDistributionChart [negative] ''s1'' 0)
        = [Finite 1, Finite 0, Finite 0, Finite 0, Finite 0, Finite 0]"
    by (simp add: generateDistributionChart_def GetLatencyDistribution_def numeral_eq_Suc)
  show "validateLogData silent = None" by (rule validate_silent)
  have "PingLog.SiteID silent = ''s1''" by (simp add: silent_def sample_def)
  then have "stats_all (stats_loop ''s1'' d1 d7 m12 [silent] fr) = AddLog (stats_all fr) silent"
      for d1 d7 m12 fr
    using validate_silent by (simp add: Let_def)
  then show "SiteStatistics.TotalChecks (CalculateSiteStatistics started [silent] now month12 ''s1'') = 1"
    by (simp add: CalculateSiteStatistics_def Let_def TotalChecks_AddLog NewTimeframeStats_def
        del: stats_loop.simps)
qed


subsection \<open>Event derivation\<close>






lemma Timestamp_event_of [simp]:
  "RecentEvent.Timestamp (event_of title l) = PingLog.Timestamp l"
  by (simp add: event_of_def)














end
